theory Spec2Isabelle
  imports Main "HOL-Library.Sublist"
begin

text \<open>
  The task workflow of the website testing agent, as a shallow embedding:
  \<open>ResultsAnalyzer.analyze_results\<close>, \<open>BrowserExecutor.save_execution_results\<close> and
  \<open>BrowserExecutor.execute_task\<close>, each as \<^verbatim>\<open>api_server.py\<close> and as
  \<^verbatim>\<open>website_testing_agent.py\<close> have it, and the endpoints of \<^verbatim>\<open>api_server.py\<close> that
  create and read a task record. An exception is a value: a function that can raise
  returns a sum whose left side is the message of the exception. What the programs get
  from the clock, the file system, the browser library and the language model is an
  input of the functions.
\<close>

section \<open>Python strings\<close>

text \<open>
  A Python \<open>str\<close> is a \<open>string\<close>, one \<open>char\<close> per character. \<open>str_in n h\<close> is
  Python's \<open>n in h\<close> on strings: it scans \<open>h\<close> from the left for a position where \<open>n\<close>
  starts. \<open>py_lower\<close> is \<open>str.lower()\<close> on the letters \<open>A\<close> to \<open>Z\<close>; every other
  character is left as it is. (The characters outside ASCII that Python lowers to an
  ASCII letter give \<open>k\<close>, or \<open>i\<close> followed by a combining dot, so neither can take part
  in an occurrence of \<open>navigate\<close>, the only word searched in a lowered string.)
\<close>

fun str_in :: "string \<Rightarrow> string \<Rightarrow> bool" where
  "str_in needle [] = (needle = [])"
| "str_in needle (c # cs) = (prefix needle (c # cs) \<or> str_in needle cs)"

definition lower_char :: "char \<Rightarrow> char" where
  "lower_char c =
     (let n = (of_char c :: nat) in if 65 \<le> n \<and> n \<le> 90 then char_of (n + 32) else c)"

definition py_lower :: "string \<Rightarrow> string" where
  "py_lower s = map lower_char s"

definition digit_char :: "nat \<Rightarrow> char" where
  "digit_char d = char_of (48 + d)"

text \<open>\<open>str(n)\<close> for a length or a step number: the decimal digits.\<close>

function str_nat :: "nat \<Rightarrow> string" where
  "str_nat n = (if n < 10 then [digit_char n] else str_nat (n div 10) @ [digit_char (n mod 10)])"
  by pat_completeness auto
termination
  by (relation "measure (\<lambda>n. n)") auto

declare str_nat.simps [simp del]

section \<open>The compliance analyzer\<close>

text \<open>
  \<open>ResultsAnalyzer.analyze_results\<close> reads two dictionaries with \<open>.get(key, default)\<close>.
  A key that may be absent is an \<open>option\<close> field, \<open>None\<close> for the absent key; the
  function below applies the default the source gives. Only the keys the analyzer reads
  are fields. The clock and the outcome of writing the report file are inputs.
\<close>

record screenshot_instruction =
  step_description :: "string option"
  filename :: "string option"

record instructions =
  target_url :: "string option"
  task_description :: "string option"
  screenshot_instructions :: "screenshot_instruction list option"

record step_dict =
  sd_action :: "string option"

record execution_results =
  er_task_id :: "string option"
  er_success :: "bool option"
  er_execution_steps :: "step_dict list option"
  er_screenshots :: "string list option"
  er_error :: "string option"
  er_full_conversation :: "string list option"

record analyzer_env =
  a_stamp :: string
  a_now_iso :: string
  a_dump_error :: "string option"

record execution_summary =
  es_success :: bool
  es_steps_completed :: nat
  es_screenshots_captured :: nat
  es_error :: "string option"

record detailed_analysis =
  conversation_length :: nat
  screenshot_analysis :: string

record screenshots_check =
  required :: nat
  captured :: nat
  meets_requirements :: bool

record compliance =
  target_url_accessed :: bool
  screenshots_captured :: screenshots_check

record review_report =
  rr_task_id :: "string option"
  rr_timestamp :: string
  rr_original_instructions :: instructions
  rr_execution_summary :: execution_summary
  rr_detailed_analysis :: "detailed_analysis option"
  recommendations :: "string list"
  compliance_check :: compliance
  rr_review_file :: "string option"
  rr_error :: "string option"

definition get_or :: "'a option \<Rightarrow> 'a \<Rightarrow> 'a" where
  "get_or v d = (case v of None \<Rightarrow> d | Some x \<Rightarrow> x)"

text \<open>
  The generator expression of \<open>url_accessed\<close>, for one step: \<open>"navigate" in
  step.get("action", "").lower() or target_url in step.get("action", "")\<close>.
\<close>

definition step_hits :: "string \<Rightarrow> step_dict \<Rightarrow> bool" where
  "step_hits url step =
     (str_in ''navigate'' (py_lower (get_or (sd_action step) ''''))
      \<or> str_in url (get_or (sd_action step) ''''))"

text \<open>Python's \<open>any\<close> over the steps, left to right.\<close>

fun py_any :: "('a \<Rightarrow> bool) \<Rightarrow> 'a list \<Rightarrow> bool" where
  "py_any p [] = False"
| "py_any p (x # xs) = (if p x then True else py_any p xs)"

definition rec_failed :: string where
  "rec_failed = ''Task execution failed - check error logs''"

definition rec_url :: "string \<Rightarrow> string" where
  "rec_url url = ''Target URL '' @ url @ '' may not have been properly accessed''"

definition rec_shots :: string where
  "rec_shots = ''Not all required screenshots were captured''"

definition rec_done :: string where
  "rec_done = ''Task appears to have completed successfully''"

definition rec_count :: "nat \<Rightarrow> string" where
  "rec_count n = ''Successfully captured '' @ str_nat n @ '' screenshots''"

text \<open>
  \<open>analyze_results\<close> of \<^verbatim>\<open>api_server.py\<close>. The list \<open>recs1\<close> to \<open>recs4\<close> follows the
  four \<open>if\<close> statements that append to \<open>review_report["recommendations"]\<close>.
\<close>

definition analyze_results ::
  "analyzer_env \<Rightarrow> execution_results \<Rightarrow> instructions \<Rightarrow> review_report" where
  "analyze_results env res instr =
    (let task_id = get_or (er_task_id res) ''unknown'';
         success = get_or (er_success res) False;
         execution_steps = get_or (er_execution_steps res) [];
         url = get_or (target_url instr) '''';
         url_accessed = py_any (step_hits url) execution_steps;
         required_screenshots = get_or (screenshot_instructions instr) [];
         captured_screenshots = get_or (er_screenshots res) [];
         recs1 = (if \<not> success then [rec_failed] else []);
         recs2 = (if \<not> url_accessed then recs1 @ [rec_url url] else recs1);
         recs3 = (if required_screenshots \<noteq> []
                     \<and> length captured_screenshots < length required_screenshots
                  then recs2 @ [rec_shots] else recs2);
         recs4 = (if success \<and> url_accessed
                  then (if captured_screenshots \<noteq> []
                        then (recs3 @ [rec_done]) @ [rec_count (length captured_screenshots)]
                        else recs3 @ [rec_done])
                  else recs3);
         review_file = ''operation_logs/review_report_'' @ task_id @ ''_'' @ a_stamp env @ ''.json''
     in \<lparr> rr_task_id = Some task_id,
          rr_timestamp = a_now_iso env,
          rr_original_instructions = instr,
          rr_execution_summary =
            \<lparr> es_success = success,
              es_steps_completed = length execution_steps,
              es_screenshots_captured = length captured_screenshots,
              es_error = er_error res \<rparr>,
          rr_detailed_analysis =
            Some \<lparr> conversation_length = length (get_or (er_full_conversation res) []),
                   screenshot_analysis =
                     (if captured_screenshots \<noteq> [] then ''Screenshots captured at key moments''
                      else ''No screenshots captured'') \<rparr>,
          recommendations = recs4,
          compliance_check =
            \<lparr> target_url_accessed = url_accessed,
              screenshots_captured =
                \<lparr> required = length required_screenshots,
                  captured = length captured_screenshots,
                  meets_requirements =
                    (if required_screenshots \<noteq> []
                     then length captured_screenshots \<ge> length required_screenshots
                     else True) \<rparr> \<rparr>,
          rr_review_file = (case a_dump_error env of None \<Rightarrow> Some review_file | Some e \<Rightarrow> None),
          rr_error =
            (case a_dump_error env of None \<Rightarrow> None
             | Some e \<Rightarrow> Some (''Error saving review report: '' @ e)) \<rparr>)"

text \<open>
  \<open>analyze_results\<close> of \<^verbatim>\<open>website_testing_agent.py\<close>: no task id, an empty
  \<open>detailed_analysis\<close>, no guard on an empty requirement list, no count entry, and a
  failed write of the report is printed only.
\<close>

definition analyze_results_script ::
  "analyzer_env \<Rightarrow> execution_results \<Rightarrow> instructions \<Rightarrow> review_report" where
  "analyze_results_script env res instr =
    (let success = get_or (er_success res) False;
         execution_steps = get_or (er_execution_steps res) [];
         url = get_or (target_url instr) '''';
         url_accessed = py_any (step_hits url) execution_steps;
         required_screenshots = get_or (screenshot_instructions instr) [];
         captured_screenshots = get_or (er_screenshots res) [];
         recs1 = (if \<not> success then [rec_failed] else []);
         recs2 = (if \<not> url_accessed then recs1 @ [rec_url url] else recs1);
         recs3 = (if length captured_screenshots < length required_screenshots
                  then recs2 @ [rec_shots] else recs2);
         recs4 = (if success \<and> url_accessed then recs3 @ [rec_done] else recs3);
         review_file = ''operation_logs/review_report_'' @ a_stamp env @ ''.json''
     in \<lparr> rr_task_id = None,
          rr_timestamp = a_now_iso env,
          rr_original_instructions = instr,
          rr_execution_summary =
            \<lparr> es_success = success,
              es_steps_completed = length execution_steps,
              es_screenshots_captured = length captured_screenshots,
              es_error = er_error res \<rparr>,
          rr_detailed_analysis = None,
          recommendations = recs4,
          compliance_check =
            \<lparr> target_url_accessed = url_accessed,
              screenshots_captured =
                \<lparr> required = length required_screenshots,
                  captured = length captured_screenshots,
                  meets_requirements =
                    (length captured_screenshots \<ge> length required_screenshots) \<rparr> \<rparr>,
          rr_review_file = (case a_dump_error env of None \<Rightarrow> Some review_file | Some e \<Rightarrow> None),
          rr_error = None \<rparr>)"

section \<open>Python values in a raw history\<close>

text \<open>
  The history that \<open>browser_agent.run()\<close> returns has no fixed shape, so it is a value
  of \<open>pyval\<close>: the builtin scalars, tuples and lists, and plain instances.
  \<open>PObj cls text attrs\<close> is an instance of class \<open>cls\<close> whose \<open>str()\<close> is \<open>text\<close> and
  whose attributes are \<open>attrs\<close>. \<open>PMethod (Inr s)\<close> is a callable attribute that returns
  the string \<open>s\<close> when called, \<open>PMethod (Inl msg)\<close> one that raises an exception whose
  \<open>str()\<close> is \<open>msg\<close>. An exception is its message, the only part of it the program reads.
\<close>

datatype pyval =
    PNone
  | PBool bool
  | PInt int
  | PStr string
  | PBytes string
  | PTuple "pyval list"
  | PList "pyval list"
  | PObj string string "(string \<times> pyval) list"
  | PMethod "string + string"

text \<open>Truth value testing (\<open>if value:\<close>). An instance of a plain class is true.\<close>

fun truthy :: "pyval \<Rightarrow> bool" where
  "truthy PNone = False"
| "truthy (PBool b) = b"
| "truthy (PInt i) = (i \<noteq> 0)"
| "truthy (PStr s) = (s \<noteq> [])"
| "truthy (PBytes b) = (b \<noteq> [])"
| "truthy (PTuple xs) = (xs \<noteq> [])"
| "truthy (PList xs) = (xs \<noteq> [])"
| "truthy (PObj cls text attrs) = True"
| "truthy (PMethod m) = True"

text \<open>
  \<open>getattr\<close> and \<open>hasattr\<close> for the attribute names the program probes (\<open>model_output\<close>,
  \<open>screenshot\<close>, \<open>save\<close>, \<open>isoformat\<close> and so on): none of them is an attribute of a
  builtin scalar, tuple, list or bound method, so only an instance can have one.
\<close>

fun getattr :: "pyval \<Rightarrow> string \<Rightarrow> pyval option" where
  "getattr (PObj cls text attrs) name = map_of attrs name"
| "getattr v name = None"

definition hasattr :: "pyval \<Rightarrow> string \<Rightarrow> bool" where
  "hasattr v name = (getattr v name \<noteq> None)"

text \<open>\<open>hasattr(v, '__iter__')\<close> and \<open>list(v)\<close> for a value that has it.\<close>

fun has_iter :: "pyval \<Rightarrow> bool" where
  "has_iter (PStr s) = True"
| "has_iter (PBytes b) = True"
| "has_iter (PTuple xs) = True"
| "has_iter (PList xs) = True"
| "has_iter v = False"

fun py_list :: "pyval \<Rightarrow> pyval list" where
  "py_list (PStr s) = map (\<lambda>c. PStr [c]) s"
| "py_list (PBytes b) = map (\<lambda>c. PInt (of_char c)) b"
| "py_list (PTuple xs) = xs"
| "py_list (PList xs) = xs"
| "py_list v = []"

fun type_name :: "pyval \<Rightarrow> string" where
  "type_name PNone = ''NoneType''"
| "type_name (PBool b) = ''bool''"
| "type_name (PInt i) = ''int''"
| "type_name (PStr s) = ''str''"
| "type_name (PBytes b) = ''bytes''"
| "type_name (PTuple xs) = ''tuple''"
| "type_name (PList xs) = ''list''"
| "type_name (PObj cls text attrs) = cls"
| "type_name (PMethod m) = ''method''"

definition str_int :: "int \<Rightarrow> string" where
  "str_int i = (if i < 0 then CHR ''-'' # str_nat (nat (- i)) else str_nat (nat i))"

text \<open>
  Calling an attribute with \<open>value.name(...)\<close>: a method returns or raises as it is
  built; any other value is not callable, which is a \<open>TypeError\<close>.
\<close>

fun py_call :: "pyval \<Rightarrow> string + string" where
  "py_call (PMethod m) = m"
| "py_call v = Inl (CHR 0x27 # type_name v @ [CHR 0x27] @ '' object is not callable'')"

section \<open>The environment of the normalizer\<close>

text \<open>
  What \<open>save_execution_results\<close> reads from outside is an input: the clock
  (\<open>stamp\<close> for \<open>strftime("%Y%m%d_%H%M%S")\<close>, \<open>now_iso\<close> for \<open>isoformat()\<close>, one reading
  for the whole call), the text \<open>str()\<close> gives for bytes, containers and methods
  (\<open>render\<close>), and the outcome of each file operation: \<open>write_fails p\<close> when opening or
  writing \<open>p\<close> raises, \<open>b64_fails d\<close> when \<open>base64.b64decode(d)\<close> raises,
  \<open>path_exists\<close> for \<open>os.path.exists\<close>, \<open>copy_fails\<close> when \<open>shutil.copy2\<close> raises, and
  \<open>dump_error\<close>, the message of the exception that opening the result file or
  \<open>json.dump\<close> raises, if any. The \<open>print\<close> calls are left out (they are taken to
  succeed), and so are the entries \<open>debug_info\<close>, \<open>raw_step_type\<close> and
  \<open>step_attributes\<close>, which hold \<open>type()\<close> and \<open>dir()\<close> of the raw values and decide
  nothing.
\<close>

record env =
  stamp :: string
  now_iso :: string
  render :: "pyval \<Rightarrow> string"
  write_fails :: "string \<Rightarrow> bool"
  b64_fails :: "string \<Rightarrow> bool"
  path_exists :: "string \<Rightarrow> bool"
  copy_fails :: "string \<Rightarrow> string \<Rightarrow> bool"
  dump_error :: "string option"

fun py_str :: "env \<Rightarrow> pyval \<Rightarrow> string" where
  "py_str env PNone = ''None''"
| "py_str env (PBool b) = (if b then ''True'' else ''False'')"
| "py_str env (PInt i) = str_int i"
| "py_str env (PStr s) = s"
| "py_str env (PObj cls text attrs) = text"
| "py_str env v = render env v"

section \<open>The result document\<close>

record step_info =
  step_number :: nat
  action :: string
  result :: string
  timestamp :: string
  screenshot_url :: "string option"
  screenshot :: "string option"

record conversation_entry =
  ce_step :: nat
  ce_model_output :: string
  ce_timestamp :: string

text \<open>
  The dictionary \<open>results\<close>. A key that one of the two programs, or one path, does not
  set is \<open>None\<close>; \<open>error\<close> is \<open>None\<close> for Python's \<open>None\<close>.
\<close>

record results =
  r_task_id :: "string option"
  r_timestamp :: string
  task_details :: instructions
  execution_steps :: "step_info list"
  screenshots :: "string list"
  screenshot_urls :: "string list"
  success :: bool
  error :: "string option"
  full_conversation :: "conversation_entry list"
  log_file :: "string option"
  detailed_log_file :: "string option"
  stdout_log_file :: "string option"
  stderr_log_file :: "string option"
  agent_thoughts_file :: "string option"

text \<open>
  The dictionary both normalizers start from; the script's has no \<open>task_id\<close>. The keys
  set later by other code start as \<open>None\<close>.
\<close>

definition initial_results :: "env \<Rightarrow> instructions \<Rightarrow> string option \<Rightarrow> results" where
  "initial_results env details task_id =
     \<lparr> r_task_id = task_id, r_timestamp = now_iso env, task_details = details,
       execution_steps = [], screenshots = [], screenshot_urls = [], success = False,
       error = None, full_conversation = [], log_file = None,
       detailed_log_file = None, stdout_log_file = None, stderr_log_file = None,
       agent_thoughts_file = None \<rparr>"

definition not_available :: string where
  "not_available = ''N/A''"

definition logs_dir :: string where
  "logs_dir = ''operation_logs''"

definition screenshots_dir :: string where
  "screenshots_dir = ''operation_logs/screenshots''"

section \<open>The normalizer of \<^verbatim>\<open>api_server.py\<close>\<close>

definition action_attrs :: "string list" where
  "action_attrs = [''model_output'', ''action'', ''input'', ''query'', ''tool_calls'']"

definition result_attrs :: "string list" where
  "result_attrs = [''result'', ''output'', ''response'', ''content'']"

definition timestamp_attrs :: "string list" where
  "timestamp_attrs = [''timestamp'', ''time'', ''created_at'']"

definition screenshot_attrs :: "string list" where
  "screenshot_attrs = [''screenshot'', ''image'', ''screen_capture'', ''page_screenshot'']"

text \<open>
  The loop \<open>for attr in attrs: if hasattr(step, attr): value = getattr(step, attr);
  if value: ...; break\<close>: the first attribute that is present and true.
\<close>

fun first_truthy :: "pyval \<Rightarrow> string list \<Rightarrow> pyval option" where
  "first_truthy step [] = None"
| "first_truthy step (attr # attrs) =
     (case getattr step attr of
        Some v \<Rightarrow> if truthy v then Some v else first_truthy step attrs
      | None \<Rightarrow> first_truthy step attrs)"

text \<open>
  The timestamp of an entry that is not a tuple. \<open>value.isoformat()\<close> is the one call of
  the loop body outside the inner \<open>try\<close> of the screenshot code that can raise.
\<close>

definition extract_timestamp :: "env \<Rightarrow> pyval \<Rightarrow> string + string" where
  "extract_timestamp env step =
     (case first_truthy step timestamp_attrs of
        None \<Rightarrow> Inr (now_iso env)
      | Some v \<Rightarrow>
          (case getattr v ''isoformat'' of
             Some m \<Rightarrow> py_call m
           | None \<Rightarrow> Inr (py_str env v)))"

text \<open>
  The body of the inner \<open>try\<close> up to the bookkeeping, for a true screenshot value found
  in an attribute of the entry: \<open>True\<close> when it raises. Without a comma,
  \<open>header, data = screenshot.split(',', 1)\<close> raises \<open>ValueError\<close>. A value of no
  handled kind writes no file and raises nothing.
\<close>

definition attr_shot_raises :: "env \<Rightarrow> string \<Rightarrow> pyval \<Rightarrow> bool" where
  "attr_shot_raises env path shot =
     (case shot of
        PBytes b \<Rightarrow> write_fails env path
      | _ \<Rightarrow>
        (case getattr shot ''save'' of
           Some m \<Rightarrow> isl (py_call m)
         | None \<Rightarrow>
           (case shot of
              PStr s \<Rightarrow>
                if prefix ''http'' s \<or> prefix ''/'' s \<or> prefix ''data:'' s then
                  if prefix ''data:image'' s then
                    (if CHR '','' \<in> set s
                     then write_fails env path
                          \<or> b64_fails env (tl (dropWhile (\<lambda>c. c \<noteq> CHR '','') s))
                     else True)
                  else if prefix ''/'' s \<and> path_exists env s then copy_fails env s path
                  else False
                else False
            | _ \<Rightarrow> False)))"

text \<open>The same for the screenshot of an item of a tuple: bytes or a \<open>save\<close> method.\<close>

definition item_shot_raises :: "env \<Rightarrow> string \<Rightarrow> pyval \<Rightarrow> bool" where
  "item_shot_raises env path shot =
     (case shot of
        PBytes b \<Rightarrow> write_fails env path
      | _ \<Rightarrow> (case getattr shot ''save'' of Some m \<Rightarrow> isl (py_call m) | None \<Rightarrow> False))"

text \<open>
  The two screenshot loops: \<open>True\<close> when one candidate was saved without an exception
  (then the loop breaks); an exception is caught and the loop goes on.
\<close>

fun tuple_screenshot :: "env \<Rightarrow> string \<Rightarrow> pyval list \<Rightarrow> bool" where
  "tuple_screenshot env path [] = False"
| "tuple_screenshot env path (item # items) =
     (case getattr item ''screenshot'' of
        Some shot \<Rightarrow>
          if truthy shot
          then (if item_shot_raises env path shot then tuple_screenshot env path items else True)
          else tuple_screenshot env path items
      | None \<Rightarrow> tuple_screenshot env path items)"

fun attr_screenshot :: "env \<Rightarrow> string \<Rightarrow> pyval \<Rightarrow> string list \<Rightarrow> bool" where
  "attr_screenshot env path step [] = False"
| "attr_screenshot env path step (attr # attrs) =
     (case getattr step attr of
        Some shot \<Rightarrow>
          if truthy shot
          then (if attr_shot_raises env path shot then attr_screenshot env path step attrs
                else True)
          else attr_screenshot env path step attrs
      | None \<Rightarrow> attr_screenshot env path step attrs)"

definition with_screenshot :: "bool \<Rightarrow> string \<Rightarrow> string \<Rightarrow> step_info \<Rightarrow> step_info" where
  "with_screenshot saved path url info =
     (if saved then info\<lparr> screenshot := Some path, screenshot_url := Some url \<rparr> else info)"

text \<open>
  One pass of the loop body for the entry \<open>step\<close> at index \<open>i\<close>, up to the two appends
  at its end: the \<open>step_info\<close> it builds, or the exception that leaves the loop.
\<close>

definition process_step :: "env \<Rightarrow> string \<Rightarrow> nat \<Rightarrow> pyval \<Rightarrow> string + step_info" where
  "process_step env task_id i step =
     (let screenshot_filename =
            task_id @ ''_step_'' @ str_nat (i + 1) @ ''_'' @ stamp env @ ''.png'';
          screenshot_path = screenshots_dir @ ''/'' @ screenshot_filename;
          screenshot_url = ''/screenshots/'' @ screenshot_filename;
          info0 = \<lparr> step_number = i + 1, action = not_available, result = not_available,
                    timestamp = now_iso env, screenshot_url = None, screenshot = None \<rparr>
      in case step of
           PTuple items \<Rightarrow>
             (let info1 =
                    (if length items \<ge> 2
                     then info0\<lparr> action := (if truthy (items ! 0) then py_str env (items ! 0)
                                            else not_available),
                                 result := (if truthy (items ! 1) then py_str env (items ! 1)
                                            else not_available) \<rparr>
                     else info0)
              in Inr (with_screenshot (tuple_screenshot env screenshot_path items)
                        screenshot_path screenshot_url info1))
         | _ \<Rightarrow>
             (let info1 =
                    info0\<lparr> action := (case first_truthy step action_attrs of
                                         Some v \<Rightarrow> py_str env v | None \<Rightarrow> not_available),
                            result := (case first_truthy step result_attrs of
                                         Some v \<Rightarrow> py_str env v | None \<Rightarrow> not_available) \<rparr>
              in case extract_timestamp env step of
                   Inl e \<Rightarrow> Inl e
                 | Inr ts \<Rightarrow>
                     Inr (with_screenshot
                            (attr_screenshot env screenshot_path step screenshot_attrs)
                            screenshot_path screenshot_url (info1\<lparr> timestamp := ts \<rparr>))))"

text \<open>
  The appends to \<open>results\<close> for a finished entry: its screenshot, its conversation
  entry when an action was found, and the step itself.
\<close>

definition record_step :: "step_info \<Rightarrow> results \<Rightarrow> results" where
  "record_step info res =
     res\<lparr> screenshots := screenshots res @ (case screenshot info of Some p \<Rightarrow> [p] | None \<Rightarrow> []),
          screenshot_urls :=
            screenshot_urls res @ (case screenshot_url info of Some u \<Rightarrow> [u] | None \<Rightarrow> []),
          full_conversation :=
            (if action info \<noteq> not_available
             then full_conversation res
                  @ [\<lparr> ce_step = step_number info, ce_model_output = action info,
                        ce_timestamp = timestamp info \<rparr>]
             else full_conversation res),
          execution_steps := execution_steps res @ [info] \<rparr>"

text \<open>
  The \<open>for\<close> loop over \<open>enumerate(history_list)\<close>: the dictionary as the loop leaves
  it, and the exception that ended it, if one did. The entries done before an exception
  stay in the dictionary, which is mutated in place.
\<close>

fun process_history ::
  "env \<Rightarrow> string \<Rightarrow> nat \<Rightarrow> pyval list \<Rightarrow> results \<Rightarrow> results \<times> string option" where
  "process_history env task_id i [] res = (res, None)"
| "process_history env task_id i (step # rest) res =
     (case process_step env task_id i step of
        Inl e \<Rightarrow> (res, Some e)
      | Inr info \<Rightarrow> process_history env task_id (Suc i) rest (record_step info res))"

text \<open>\<open>list(history)\<close> when the history is iterable, else \<open>[history] if history else []\<close>.\<close>

definition history_list :: "pyval \<Rightarrow> pyval list" where
  "history_list history =
     (if has_iter history then py_list history
      else if truthy history then [history] else [])"

definition save_execution_results :: "env \<Rightarrow> pyval \<Rightarrow> instructions \<Rightarrow> string \<Rightarrow> results" where
  "save_execution_results env history details task_id =
     (let log = logs_dir @ ''/browser_execution_'' @ task_id @ ''_'' @ stamp env @ ''.json'';
          results0 = initial_results env details (Some task_id);
          steps = history_list history;
          results1 =
            (if steps \<noteq> []
             then (case process_history env task_id 0 steps results0 of
                     (res, None) \<Rightarrow> res\<lparr> success := True \<rparr>
                   | (res, Some e) \<Rightarrow> res\<lparr> error := Some e \<rparr>)
             else results0)
      in case dump_error env of
           None \<Rightarrow> results1\<lparr> log_file := Some log \<rparr>
         | Some e \<Rightarrow> results1\<lparr> error := Some (''Error saving results: '' @ e) \<rparr>)"

section \<open>The normalizer of \<^verbatim>\<open>website_testing_agent.py\<close>\<close>

text \<open>
  The script reads \<open>model_output\<close>, \<open>result\<close> and \<open>timestamp\<close> only, and without a test
  of the value: \<open>step.timestamp.isoformat()\<close> raises \<open>AttributeError\<close> for a timestamp
  that has no such method. The screenshot is bytes or gets \<open>.save(path)\<close> called; any
  exception there is printed.
\<close>

definition no_attribute :: "pyval \<Rightarrow> string \<Rightarrow> string" where
  "no_attribute v name =
     CHR 0x27 # type_name v @ [CHR 0x27] @ '' object has no attribute ''
       @ CHR 0x27 # name @ [CHR 0x27]"

definition not_iterable :: "pyval \<Rightarrow> string" where
  "not_iterable v = CHR 0x27 # type_name v @ [CHR 0x27] @ '' object is not iterable''"

definition script_shot_raises :: "env \<Rightarrow> string \<Rightarrow> pyval \<Rightarrow> bool" where
  "script_shot_raises env path shot =
     (case shot of
        PBytes b \<Rightarrow> write_fails env path
      | _ \<Rightarrow> (case getattr shot ''save'' of Some m \<Rightarrow> isl (py_call m) | None \<Rightarrow> True))"

text \<open>\<open>step.timestamp.isoformat() if hasattr(step, 'timestamp') else datetime.now().isoformat()\<close>.\<close>

definition script_timestamp :: "env \<Rightarrow> pyval \<Rightarrow> string + string" where
  "script_timestamp env step =
     (case getattr step ''timestamp'' of
        None \<Rightarrow> Inr (now_iso env)
      | Some t \<Rightarrow>
          (case getattr t ''isoformat'' of
             Some m \<Rightarrow> py_call m
           | None \<Rightarrow> Inl (no_attribute t ''isoformat'')))"

definition process_step_script :: "env \<Rightarrow> nat \<Rightarrow> pyval \<Rightarrow> string + step_info" where
  "process_step_script env i step =
     (let screenshot_path =
            screenshots_dir @ ''/step_'' @ str_nat (i + 1) @ ''_'' @ stamp env @ ''.png'';
          act = (case getattr step ''model_output'' of
                   Some v \<Rightarrow> py_str env v | None \<Rightarrow> not_available);
          res = (case getattr step ''result'' of
                   Some v \<Rightarrow> py_str env v | None \<Rightarrow> not_available)
      in case script_timestamp env step of
           Inl e \<Rightarrow> Inl e
         | Inr t \<Rightarrow>
             (let info = \<lparr> step_number = i + 1, action = act, result = res, timestamp = t,
                           screenshot_url = None, screenshot = None \<rparr>
              in case getattr step ''screenshot'' of
                   Some shot \<Rightarrow>
                     if truthy shot \<and> \<not> script_shot_raises env screenshot_path shot
                     then Inr (info\<lparr> screenshot := Some screenshot_path \<rparr>)
                     else Inr info
                 | None \<Rightarrow> Inr info))"

definition record_step_script :: "step_info \<Rightarrow> results \<Rightarrow> results" where
  "record_step_script info res =
     res\<lparr> screenshots := screenshots res @ (case screenshot info of Some p \<Rightarrow> [p] | None \<Rightarrow> []),
          execution_steps := execution_steps res @ [info] \<rparr>"

fun process_history_script ::
  "env \<Rightarrow> nat \<Rightarrow> pyval list \<Rightarrow> results \<Rightarrow> results \<times> string option" where
  "process_history_script env i [] res = (res, None)"
| "process_history_script env i (step # rest) res =
     (case process_step_script env i step of
        Inl e \<Rightarrow> (res, Some e)
      | Inr info \<Rightarrow> process_history_script env (Suc i) rest (record_step_script info res))"

definition save_execution_results_script :: "env \<Rightarrow> pyval \<Rightarrow> instructions \<Rightarrow> results" where
  "save_execution_results_script env history details =
     (let log = logs_dir @ ''/browser_execution_'' @ stamp env @ ''.json'';
          results0 = initial_results env details None;
          results1 =
            (if truthy history
             then (if has_iter history
                   then (case process_history_script env 0 (py_list history) results0 of
                           (res, None) \<Rightarrow> res\<lparr> success := True \<rparr>
                         | (res, Some e) \<Rightarrow> res\<lparr> error := Some e \<rparr>)
                   else results0\<lparr> error := Some (not_iterable history) \<rparr>)
             else results0)
      in case dump_error env of
           None \<Rightarrow> results1\<lparr> log_file := Some log \<rparr>
         | Some e \<Rightarrow> results1)"

section \<open>The task store\<close>

text \<open>
  \<open>task_storage\<close> maps a task id to its record. The status is one of the four strings
  the program writes. \<open>world\<close> holds the store and two observations of what a run did:
  \<open>status_writes\<close>, every assignment to a record's \<open>"status"\<close> in the order made, and
  \<open>close_calls\<close>, the number of calls of \<open>browser_agent.browser.close()\<close>.
\<close>

datatype status = Pending | Running | Completed | Failed

fun status_text :: "status \<Rightarrow> string" where
  "status_text Pending = ''pending''"
| "status_text Running = ''running''"
| "status_text Completed = ''completed''"
| "status_text Failed = ''failed''"

record analysis_result =
  an_task_id :: string
  analysis_content :: string
  an_timestamp :: string

record task =
  t_task_id :: string
  status :: status
  start_time :: "string option"
  progress :: "string option"
  t_instructions :: "instructions option"
  end_time :: "string option"
  t_error :: "string option"
  t_results :: "results option"
  analysis :: "analysis_result option"

record world =
  task_storage :: "string \<rightharpoonup> task"
  status_writes :: "(string \<times> status) list"
  close_calls :: nat

text \<open>
  What the service gets from the libraries it drives is an input: whether
  \<open>GEMINI_API_KEY\<close> is set, the clock reading of the task id, and for each call that can
  raise the message of its exception: setting up the log files (\<open>logging_error\<close>),
  building the model, the browser and the agent (\<open>agent_error\<close>), \<open>browser_agent.run()\<close>
  (\<open>run_result\<close>, with the history it returns otherwise), \<open>browser.close()\<close>
  (\<open>close_error\<close>) and the analysis agent (\<open>analysis_run\<close>). \<open>frame_via name k\<close> tells
  whether the \<open>k\<close>-th way of \<open>capture_manual_screenshot\<close> to reach a page gets one,
  captures a frame and writes it without an exception, for the capture named \<open>name\<close>.
\<close>

record automation =
  gemini_key :: bool
  micro_stamp :: string
  logging_error :: "string option"
  agent_error :: "string option"
  frame_via :: "string \<Rightarrow> nat \<Rightarrow> bool"
  run_result :: "string + pyval"
  close_error :: "string option"
  analysis_run :: "string + string"

definition set_status :: "string \<Rightarrow> status \<Rightarrow> world \<Rightarrow> world" where
  "set_status task_id st w =
     w\<lparr> task_storage :=
          (case task_storage w task_id of
             Some t \<Rightarrow> (task_storage w)(task_id \<mapsto> t\<lparr> status := st \<rparr>)
           | None \<Rightarrow> task_storage w),
        status_writes := status_writes w @ [(task_id, st)] \<rparr>"

definition update_task :: "string \<Rightarrow> (task \<Rightarrow> task) \<Rightarrow> world \<Rightarrow> world" where
  "update_task task_id f w =
     w\<lparr> task_storage :=
          (case task_storage w task_id of
             Some t \<Rightarrow> (task_storage w)(task_id \<mapsto> f t)
           | None \<Rightarrow> task_storage w) \<rparr>"

definition set_progress :: "string \<Rightarrow> string \<Rightarrow> world \<Rightarrow> world" where
  "set_progress task_id text w = update_task task_id (\<lambda>t. t\<lparr> progress := Some text \<rparr>) w"

section \<open>The orchestrator of \<^verbatim>\<open>api_server.py\<close>\<close>

text \<open>
  \<open>create_browser_agent\<close>: without the key it raises \<open>ValueError\<close>, and every exception
  of its body is raised again with a prefix. The agent it returns always has its
  browser and its \<open>_custom_logger\<close>, so a created agent is \<open>()\<close>.
\<close>

definition create_browser_agent :: "automation \<Rightarrow> string + unit" where
  "create_browser_agent auto =
     (if \<not> gemini_key auto
      then Inl (''Error creating browser agent: '' @ ''GEMINI_API_KEY not configured'')
      else (case agent_error auto of
              Some e \<Rightarrow> Inl (''Error creating browser agent: '' @ e)
            | None \<Rightarrow> Inr ()))"

text \<open>
  \<open>capture_manual_screenshot\<close> tries three ways in turn, each in a \<open>try\<close> of its own,
  all inside an outer \<open>try\<close>: it returns the pair of path and URL, or \<open>(None, None)\<close>.
\<close>

definition capture_manual_screenshot ::
  "env \<Rightarrow> automation \<Rightarrow> string \<Rightarrow> string \<Rightarrow> (string \<times> string) option" where
  "capture_manual_screenshot env auto task_id step_name =
     (let screenshot_filename = task_id @ ''_'' @ step_name @ ''_'' @ stamp env @ ''.png'';
          screenshot_path = screenshots_dir @ ''/'' @ screenshot_filename;
          screenshot_url = ''/screenshots/'' @ screenshot_filename
      in if frame_via auto step_name 1 then Some (screenshot_path, screenshot_url)
         else if frame_via auto step_name 2 then Some (screenshot_path, screenshot_url)
         else if frame_via auto step_name 3 then Some (screenshot_path, screenshot_url)
         else None)"

definition add_manual_screenshot :: "(string \<times> string) option \<Rightarrow> results \<Rightarrow> results" where
  "add_manual_screenshot shot res =
     (case shot of
        Some (path, url) \<Rightarrow>
          res\<lparr> screenshots := screenshots res @ [path],
               screenshot_urls := screenshot_urls res @ [url] \<rparr>
      | None \<Rightarrow> res)"

definition detailed_log_path :: "env \<Rightarrow> string \<Rightarrow> string" where
  "detailed_log_path env task_id =
     logs_dir @ ''/detailed_agent_log_'' @ task_id @ ''_'' @ stamp env @ ''.txt''"

definition stdout_log_path :: "env \<Rightarrow> string \<Rightarrow> string" where
  "stdout_log_path env task_id =
     logs_dir @ ''/agent_stdout_'' @ task_id @ ''_'' @ stamp env @ ''.txt''"

definition stderr_log_path :: "env \<Rightarrow> string \<Rightarrow> string" where
  "stderr_log_path env task_id =
     logs_dir @ ''/agent_stderr_'' @ task_id @ ''_'' @ stamp env @ ''.txt''"

definition thoughts_path :: "string \<Rightarrow> string" where
  "thoughts_path task_id = logs_dir @ ''/agent_thoughts_'' @ task_id @ ''.txt''"

text \<open>
  The body of the \<open>try\<close> of \<open>execute_task\<close>. It ends with the results it returns, or
  with the exception that leaves it, paired with whether \<open>browser_agent\<close> was assigned
  by then. \<open>len(list(history)) if history else 0\<close>, evaluated for a log line, raises
  \<open>TypeError\<close> for a true history that is not iterable. The prompt \<open>full_task\<close> goes to
  the agent only, whose behaviour is an input, and is left out with the log lines.
\<close>

definition run_automation ::
  "env \<Rightarrow> automation \<Rightarrow> instructions \<Rightarrow> string \<Rightarrow> world
     \<Rightarrow> world \<times> ((string \<times> bool) + results)" where
  "run_automation env auto details task_id w =
     (let w1 = set_progress task_id ''Initializing browser agent...'' w
      in case create_browser_agent auto of
           Inl e \<Rightarrow> (w1, Inl (e, False))
         | Inr agent \<Rightarrow>
             (let w2 = set_progress task_id ''Executing automation task...'' w1;
                  initial = capture_manual_screenshot env auto task_id ''initial''
              in case run_result auto of
                   Inl e \<Rightarrow> (w2, Inl (e, True))
                 | Inr history \<Rightarrow>
                     (let final = capture_manual_screenshot env auto task_id ''final''
                      in if truthy history \<and> \<not> has_iter history
                         then (w2, Inl (not_iterable history, True))
                         else
                           (let w3 = set_progress task_id
                                       ''Saving results and screenshots...'' w2;
                                results = save_execution_results env history details task_id;
                                results1 = add_manual_screenshot initial results;
                                results2 = add_manual_screenshot final results1;
                                w4 = w3\<lparr> close_calls := Suc (close_calls w3) \<rparr>
                            in case close_error auto of
                                 Some e \<Rightarrow> (w4, Inl (e, True))
                               | None \<Rightarrow>
                                   (let results3 =
                                          results2
                                            \<lparr> detailed_log_file :=
                                                Some (detailed_log_path env task_id),
                                              stdout_log_file :=
                                                Some (stdout_log_path env task_id),
                                              stderr_log_file :=
                                                Some (stderr_log_path env task_id),
                                              agent_thoughts_file :=
                                                Some (thoughts_path task_id) \<rparr>;
                                        w5 = update_task task_id
                                               (\<lambda>t. t\<lparr> end_time := Some (now_iso env),
                                                       t_results := Some results3 \<rparr>)
                                               (set_status task_id Completed w4)
                                    in (w5, Inr results3))))))"

text \<open>
  \<open>execute_task\<close>. The first two assignments and the logging setup stand before the
  \<open>try\<close>: an unknown task id (\<open>KeyError\<close>) or a failing setup leaves the function as an
  exception (\<open>Inl\<close>). The \<open>except\<close> branch builds \<open>error_result\<close> and marks the task
  failed; it does not call \<open>close()\<close>. The \<open>finally\<close> block restores the output streams
  and closes the log handlers only.
\<close>

definition execute_task ::
  "env \<Rightarrow> automation \<Rightarrow> string \<Rightarrow> string \<Rightarrow> screenshot_instruction list \<Rightarrow> string \<Rightarrow> world
     \<Rightarrow> world \<times> (string + results)" where
  "execute_task env auto url description shots task_id w =
     (case task_storage w task_id of
        None \<Rightarrow> (w, Inl (CHR 0x27 # task_id @ [CHR 0x27]))
      | Some t0 \<Rightarrow>
          (let details = \<lparr> target_url = Some url, task_description = Some description,
                            screenshot_instructions = Some shots \<rparr>;
               w1 = set_progress task_id ''Setting up logging...''
                      (set_status task_id Running w)
           in case logging_error auto of
                Some e \<Rightarrow> (w1, Inl e)
              | None \<Rightarrow>
                  (case run_automation env auto details task_id w1 of
                     (w2, Inr results) \<Rightarrow> (w2, Inr results)
                   | (w2, Inl (e, created)) \<Rightarrow>
                       (let error_result =
                              \<lparr> r_task_id = Some task_id, r_timestamp = now_iso env,
                                task_details = details, execution_steps = [],
                                screenshots = [], screenshot_urls = [], success = False,
                                error = Some e, full_conversation = [], log_file = None,
                                detailed_log_file = Some (detailed_log_path env task_id),
                                stdout_log_file = Some (stdout_log_path env task_id),
                                stderr_log_file = Some (stderr_log_path env task_id),
                                agent_thoughts_file =
                                  (if created then Some (thoughts_path task_id) else None) \<rparr>;
                            w3 = update_task task_id
                                   (\<lambda>t. t\<lparr> end_time := Some (now_iso env), t_error := Some e,
                                           t_results := Some error_result \<rparr>)
                                   (set_status task_id Failed w2)
                        in (w3, Inr error_result)))))"

section \<open>The orchestrator of \<^verbatim>\<open>website_testing_agent.py\<close>\<close>

text \<open>
  The script has no task store. Its \<open>execute_task\<close> returns the results or, from the
  \<open>except\<close> branch, \<open>error_result\<close>; the second component counts the calls of
  \<open>close()\<close>. The file it writes for \<open>error_result\<close> is written inside a bare \<open>try\<close>.
\<close>

definition execute_task_script ::
  "env \<Rightarrow> automation \<Rightarrow> string \<Rightarrow> string \<Rightarrow> screenshot_instruction list \<Rightarrow> results \<times> nat" where
  "execute_task_script env auto url description shots =
     (let details = \<lparr> target_url = Some url, task_description = Some description,
                       screenshot_instructions = Some shots \<rparr>;
          error_result =
            (\<lambda>e. \<lparr> r_task_id = None, r_timestamp = now_iso env, task_details = details,
                    execution_steps = [], screenshots = [], screenshot_urls = [],
                    success = False, error = Some e, full_conversation = [],
                    log_file =
                      (case dump_error env of
                         None \<Rightarrow> Some (logs_dir @ ''/browser_error_'' @ stamp env @ ''.json'')
                       | Some d \<Rightarrow> None),
                    detailed_log_file = None, stdout_log_file = None, stderr_log_file = None,
                    agent_thoughts_file = None \<rparr>)
      in case agent_error auto of
           Some e \<Rightarrow> (error_result e, 0)
         | None \<Rightarrow>
             (case run_result auto of
                Inl e \<Rightarrow> (error_result e, 0)
              | Inr history \<Rightarrow>
                  (let results = save_execution_results_script env history details
                   in case close_error auto of
                        Some e \<Rightarrow> (error_result e, 1)
                      | None \<Rightarrow> (results, 1))))"

section \<open>The endpoints\<close>

datatype http_error = HTTPException nat string

record submit_response =
  sr_task_id :: string
  sr_status :: status
  sr_message :: string
  check_status_url :: string

text \<open>
  \<open>POST /execute-test\<close> stores the new record; the run itself is a background task,
  \<open>execute_task\<close> called after the response.
\<close>

definition execute_test ::
  "env \<Rightarrow> automation \<Rightarrow> string \<Rightarrow> string \<Rightarrow> screenshot_instruction list \<Rightarrow> world
     \<Rightarrow> world \<times> (http_error + submit_response)" where
  "execute_test env auto url description shots w =
     (if \<not> gemini_key auto then (w, Inl (HTTPException 500 ''GEMINI_API_KEY not configured''))
      else
        (let task_id = ''task_'' @ micro_stamp auto;
             record =
               \<lparr> t_task_id = task_id, status = Pending, start_time = Some (now_iso env),
                 progress = Some ''Task queued for execution'',
                 t_instructions =
                   Some \<lparr> target_url = Some url, task_description = Some description,
                          screenshot_instructions = Some shots \<rparr>,
                 end_time = None, t_error = None, t_results = None, analysis = None \<rparr>
         in (w\<lparr> task_storage := (task_storage w)(task_id \<mapsto> record),
                status_writes := status_writes w @ [(task_id, Pending)] \<rparr>,
             Inr \<lparr> sr_task_id = task_id, sr_status = Pending,
                   sr_message = ''Task queued for execution'',
                   check_status_url = ''/task-status/'' @ task_id \<rparr>)))"

text \<open>\<open>GET /task-results/{task_id}\<close>; \<open>None\<close> is the \<open>{}\<close> of \<open>.get("results", {})\<close>.\<close>

definition get_task_results :: "string \<Rightarrow> world \<Rightarrow> http_error + results option" where
  "get_task_results task_id w =
     (case task_storage w task_id of
        None \<Rightarrow> Inl (HTTPException 404 ''Task not found'')
      | Some task_info \<Rightarrow>
          if status task_info \<notin> set [Completed, Failed]
          then Inl (HTTPException 400 (''Task is still '' @ status_text (status task_info)))
          else Inr (t_results task_info))"

text \<open>
  \<open>POST /analyze-results/{task_id}\<close>. What follows the three checks runs the analysis
  agent inside a \<open>try\<close>: its exception becomes a 500 response, its answer is stored.
\<close>

definition analyze_results_endpoint ::
  "env \<Rightarrow> automation \<Rightarrow> string \<Rightarrow> world \<Rightarrow> world \<times> (http_error + analysis_result)" where
  "analyze_results_endpoint env auto task_id w =
     (case task_storage w task_id of
        None \<Rightarrow> (w, Inl (HTTPException 404 ''Task not found''))
      | Some task_info \<Rightarrow>
          if status task_info \<noteq> Completed
          then (w, Inl (HTTPException 400 ''Task must be completed before analysis''))
          else if \<not> gemini_key auto
          then (w, Inl (HTTPException 500 ''GEMINI_API_KEY not configured''))
          else
            (case analysis_run auto of
               Inl e \<Rightarrow> (w, Inl (HTTPException 500 (''Analysis failed: '' @ e)))
             | Inr content \<Rightarrow>
                 (let analysis_result =
                        \<lparr> an_task_id = task_id, analysis_content = content,
                          an_timestamp = now_iso env \<rparr>
                  in (update_task task_id (\<lambda>t. t\<lparr> analysis := Some analysis_result \<rparr>) w,
                      Inr analysis_result))))"

section \<open>Notions used in the statements\<close>

text \<open>
  An entry raises out of the loop body exactly when its timestamp call does: for
  \<^verbatim>\<open>api_server.py\<close> an entry that is not a tuple whose first true timestamp attribute
  has an \<open>isoformat\<close> that raises or is not callable, for the script an entry whose
  \<open>timestamp\<close> has no \<open>isoformat\<close> or one that raises.
\<close>

definition step_raises :: "env \<Rightarrow> pyval \<Rightarrow> bool" where
  "step_raises env step =
     (case step of PTuple items \<Rightarrow> False | _ \<Rightarrow> isl (extract_timestamp env step))"

definition step_raises_script :: "env \<Rightarrow> pyval \<Rightarrow> bool" where
  "step_raises_script env step = isl (script_timestamp env step)"

text \<open>The steps of the entries that come before the first entry that raises.\<close>

fun good_steps :: "env \<Rightarrow> string \<Rightarrow> nat \<Rightarrow> pyval list \<Rightarrow> step_info list" where
  "good_steps env tid i [] = []"
| "good_steps env tid i (s # ss) =
     (case process_step env tid i s of
        Inl e \<Rightarrow> []
      | Inr info \<Rightarrow> info # good_steps env tid (Suc i) ss)"

fun good_steps_script :: "env \<Rightarrow> nat \<Rightarrow> pyval list \<Rightarrow> step_info list" where
  "good_steps_script env i [] = []"
| "good_steps_script env i (s # ss) =
     (case process_step_script env i s of
        Inl e \<Rightarrow> []
      | Inr info \<Rightarrow> info # good_steps_script env (Suc i) ss)"

text \<open>The message of the first exception that leaves the loop body, if any.\<close>

fun first_raise :: "env \<Rightarrow> string \<Rightarrow> nat \<Rightarrow> pyval list \<Rightarrow> string option" where
  "first_raise env tid i [] = None"
| "first_raise env tid i (s # ss) =
     (case process_step env tid i s of
        Inl e \<Rightarrow> Some e
      | Inr info \<Rightarrow> first_raise env tid (Suc i) ss)"

fun first_raise_script :: "env \<Rightarrow> nat \<Rightarrow> pyval list \<Rightarrow> string option" where
  "first_raise_script env i [] = None"
| "first_raise_script env i (s # ss) =
     (case process_step_script env i s of
        Inl e \<Rightarrow> Some e
      | Inr info \<Rightarrow> first_raise_script env (Suc i) ss)"

definition status_of :: "world \<Rightarrow> string \<Rightarrow> status option" where
  "status_of w task_id = map_option status (task_storage w task_id)"

text \<open>
  Reading a word without regard to case, said without \<open>lower()\<close>: two characters are
  the same letter when they are equal, or when one is an upper-case ASCII letter (code
  65 to 90) and the other is 32 above it. \<open>ignoring_case w s\<close> holds when \<open>w\<close> and \<open>s\<close>
  have the same length and the same letter at every position.
\<close>

definition same_letter :: "char \<Rightarrow> char \<Rightarrow> bool" where
  "same_letter c d =
     (c = d
      \<or> (65 \<le> (of_char c :: nat) \<and> (of_char c :: nat) \<le> 90
           \<and> (of_char d :: nat) = of_char c + 32)
      \<or> (65 \<le> (of_char d :: nat) \<and> (of_char d :: nat) \<le> 90
           \<and> (of_char c :: nat) = of_char d + 32))"

definition ignoring_case :: "string \<Rightarrow> string \<Rightarrow> bool" where
  "ignoring_case w s = list_all2 same_letter w s"

text \<open>
  The recommendation list as the specification words it, from whether the run
  succeeded, whether the URL was reached, whether the screenshot requirement is unmet,
  the URL and the number of captured screenshots: the positive entry is always
  followed by the count.
\<close>

definition claimed_recommendations ::
  "bool \<Rightarrow> bool \<Rightarrow> bool \<Rightarrow> string \<Rightarrow> nat \<Rightarrow> string list" where
  "claimed_recommendations ok reached unmet url n =
     (if \<not> ok then [''Task execution failed - check error logs''] else [])
     @ (if \<not> reached
        then [''Target URL '' @ url @ '' may not have been properly accessed''] else [])
     @ (if unmet then [''Not all required screenshots were captured''] else [])
     @ (if ok \<and> reached
        then [''Task appears to have completed successfully'',
              ''Successfully captured '' @ str_nat n @ '' screenshots'']
        else [])"

text \<open>
  The state machine of the specification, \<open>pending \<rightarrow> running \<rightarrow> {completed, failed}\<close>:
  the steps it allows. Nothing leaves \<open>completed\<close> or \<open>failed\<close>.
\<close>

fun transition :: "status \<Rightarrow> status \<Rightarrow> bool" where
  "transition Pending Running = True"
| "transition Running Completed = True"
| "transition Running Failed = True"
| "transition s s' = False"

subsection \<open>Example inputs\<close>

definition example_env :: env where
  "example_env =
     \<lparr> stamp = ''20250501_120000'', now_iso = ''2025-05-01T12:00:00'',
       render = (\<lambda>v. ''<value>''), write_fails = (\<lambda>p. False), b64_fails = (\<lambda>d. False),
       path_exists = (\<lambda>p. False), copy_fails = (\<lambda>s d. False), dump_error = None \<rparr>"

definition example_world :: world where
  "example_world = \<lparr> task_storage = Map.empty, status_writes = [], close_calls = 0 \<rparr>"

definition example_automation :: automation where
  "example_automation =
     \<lparr> gemini_key = True, micro_stamp = ''20250501_120000_000001'', logging_error = None,
       agent_error = None, frame_via = (\<lambda>name k. False),
       run_result = Inr (PList [PTuple [PStr ''navigate to http://x.test'', PStr ''done'']]),
       close_error = None, analysis_run = Inr ''All steps completed.'' \<rparr>"

text \<open>
  Three history entries: a pair of action and outcome, an instance whose timestamp has
  an \<open>isoformat\<close> that raises, and an instance with an action only.
\<close>

definition example_tuple :: pyval where
  "example_tuple = PTuple [PStr ''click login'', PStr ''ok'']"

definition example_bad_clock :: pyval where
  "example_bad_clock =
     PObj ''Step'' ''Step()''
       [(''action'', PStr ''type name''),
        (''timestamp'',
           PObj ''Stamp'' ''Stamp()'' [(''isoformat'', PMethod (Inl ''clock unavailable''))])]"

definition example_object :: pyval where
  "example_object = PObj ''Step'' ''Step()'' [(''action'', PStr ''submit form'')]"

definition example_analyzer_env :: analyzer_env where
  "example_analyzer_env =
     \<lparr> a_stamp = ''20250501_120000'', a_now_iso = ''2025-05-01T12:00:00'',
       a_dump_error = None \<rparr>"

definition example_details :: instructions where
  "example_details =
     \<lparr> target_url = Some ''http://x.test'', task_description = Some ''open the page'',
       screenshot_instructions = Some [] \<rparr>"

definition example_shot_instruction :: "string \<Rightarrow> screenshot_instruction" where
  "example_shot_instruction name =
     \<lparr> step_description = Some name, filename = Some (name @ ''.png'') \<rparr>"

definition example_execution :: "string \<Rightarrow> execution_results" where
  "example_execution act =
     \<lparr> er_task_id = Some ''t1'', er_success = Some True,
       er_execution_steps = Some [\<lparr> sd_action = Some act \<rparr>],
       er_screenshots = Some [], er_error = None, er_full_conversation = Some [] \<rparr>"

text \<open>A store that holds one task, just submitted.\<close>

definition example_task :: task where
  "example_task =
     \<lparr> t_task_id = ''t1'', status = Pending, start_time = Some ''2025-05-01T12:00:00'',
       progress = Some ''Task queued for execution'', t_instructions = Some example_details,
       end_time = None, t_error = None, t_results = None, analysis = None \<rparr>"

definition example_pending_world :: world where
  "example_pending_world =
     \<lparr> task_storage = [''t1'' \<mapsto> example_task], status_writes = [(''t1'', Pending)],
       close_calls = 0 \<rparr>"

section \<open>Substring search\<close>

lemma str_in_sublist: "str_in n h = sublist n h"
  by (induction h) (simp_all add: sublist_Cons_right)

lemma py_any_ex: "py_any p xs = (\<exists>x \<in> set xs. p x)"
  by (induction xs) simp_all

lemma sublist_map_iff: "sublist n (map f h) = (\<exists>w. sublist w h \<and> map f w = n)"
proof
  assume "sublist n (map f h)"
  then obtain ps ss where "map f h = ps @ n @ ss"
    by (auto simp: sublist_def)
  then obtain a vs where h: "h = a @ vs" and vs: "n @ ss = map f vs"
    unfolding map_eq_append_conv by blast
  from vs obtain b c where "vs = b @ c" and "map f b = n"
    unfolding append_eq_map_conv by blast
  with h have "h = a @ b @ c" and "map f b = n"
    by simp_all
  then show "\<exists>w. sublist w h \<and> map f w = n"
    by auto
next
  assume "\<exists>w. sublist w h \<and> map f w = n"
  then show "sublist n (map f h)"
    using map_mono_sublist by blast
qed

lemma step_hits_iff:
  "step_hits url step =
     (sublist url (get_or (sd_action step) '''')
      \<or> (\<exists>w. sublist w (get_or (sd_action step) '''') \<and> py_lower w = ''navigate''))"
  unfolding step_hits_def str_in_sublist py_lower_def sublist_map_iff by blast

section \<open>Lowering and reading without regard to case\<close>

text \<open>
  \<open>lower_char\<close> sends a character to a given lower-case letter exactly when the
  character is that letter in either case.
\<close>

lemma lower_char_eq_iff:
  assumes "97 \<le> (of_char d :: nat)" and "(of_char d :: nat) \<le> 122"
  shows "(lower_char c = d) = same_letter c d"
proof (cases "65 \<le> (of_char c :: nat) \<and> (of_char c :: nat) \<le> 90")
  case True
  then have l: "lower_char c = char_of ((of_char c :: nat) + 32)"
    by (simp add: lower_char_def Let_def)
  have "(char_of ((of_char c :: nat) + 32) = d) = ((of_char c :: nat) + 32 = of_char d)"
  proof
    assume "char_of ((of_char c :: nat) + 32) = d"
    then have "(of_char (char_of ((of_char c :: nat) + 32)) :: nat) = of_char d" by simp
    with True show "(of_char c :: nat) + 32 = of_char d" by simp
  next
    assume "(of_char c :: nat) + 32 = of_char d"
    then have "char_of ((of_char c :: nat) + 32) = char_of (of_char d :: nat)" by simp
    then show "char_of ((of_char c :: nat) + 32) = d" by simp
  qed
  with l True assms show ?thesis
    by (auto simp: same_letter_def)
next
  case False
  then have "lower_char c = c"
    by (auto simp: lower_char_def Let_def)
  with False assms show ?thesis
    by (auto simp: same_letter_def)
qed

lemma py_lower_eq_iff:
  "\<forall>d \<in> set s. 97 \<le> (of_char d :: nat) \<and> (of_char d :: nat) \<le> 122 \<Longrightarrow>
     (py_lower w = s) = ignoring_case w s"
proof (induction s arbitrary: w)
  case Nil
  then show ?case by (simp add: py_lower_def ignoring_case_def)
next
  case (Cons d s)
  show ?case
  proof (cases w)
    case Nil
    then show ?thesis by (simp add: py_lower_def ignoring_case_def)
  next
    case (Cons c w')
    from Cons.prems have d: "97 \<le> (of_char d :: nat)" "(of_char d :: nat) \<le> 122"
      and s: "\<forall>d \<in> set s. 97 \<le> (of_char d :: nat) \<and> (of_char d :: nat) \<le> 122"
      by simp_all
    from Cons.IH[OF s, of w'] lower_char_eq_iff[OF d, of c] Cons
    show ?thesis by (simp add: py_lower_def ignoring_case_def)
  qed
qed

lemma py_lower_navigate: "(py_lower w = ''navigate'') = ignoring_case w ''navigate''"
  by (rule py_lower_eq_iff) simp

text \<open>
  The test of one step, on the raw fields: an absent \<open>action\<close> reads as the empty
  string.
\<close>

lemma step_hits_raw:
  "step_hits url step =
     (sublist url (case sd_action step of None \<Rightarrow> [] | Some a \<Rightarrow> a)
      \<or> (\<exists>w. sublist w (case sd_action step of None \<Rightarrow> [] | Some a \<Rightarrow> a)
             \<and> ignoring_case w ''navigate''))"
  by (simp add: step_hits_iff py_lower_navigate get_or_def)

lemma str_nat_zero: "str_nat 0 = ''0''"
  by code_simp

section \<open>The compliance analyzer: claims C6, C7 and C10\<close>

text \<open>
  Claim C6. In both programs \<open>target_url_accessed\<close> is true if and only if the results
  hold a step list and some step of it has an action text that contains the target URL
  as a substring, or contains a substring that reads \<open>navigate\<close> without regard to
  case. The right-hand side is on the raw fields: an absent \<open>action\<close> or \<open>target_url\<close>
  reads as the empty string, and with no step list no step is found.
\<close>

theorem target_url_accessed_iff:
  "target_url_accessed (compliance_check (analyze_results env res instr)) =
     (\<exists>steps step. er_execution_steps res = Some steps \<and> step \<in> set steps
        \<and> (sublist (case target_url instr of None \<Rightarrow> [] | Some u \<Rightarrow> u)
                    (case sd_action step of None \<Rightarrow> [] | Some a \<Rightarrow> a)
           \<or> (\<exists>w. sublist w (case sd_action step of None \<Rightarrow> [] | Some a \<Rightarrow> a)
                  \<and> ignoring_case w ''navigate'')))
   \<and> target_url_accessed (compliance_check (analyze_results_script env res instr)) =
     (\<exists>steps step. er_execution_steps res = Some steps \<and> step \<in> set steps
        \<and> (sublist (case target_url instr of None \<Rightarrow> [] | Some u \<Rightarrow> u)
                    (case sd_action step of None \<Rightarrow> [] | Some a \<Rightarrow> a)
           \<or> (\<exists>w. sublist w (case sd_action step of None \<Rightarrow> [] | Some a \<Rightarrow> a)
                  \<and> ignoring_case w ''navigate'')))"
  by (cases "er_execution_steps res")
     (auto simp: analyze_results_def analyze_results_script_def Let_def py_any_ex
        step_hits_raw get_or_def)

theorem target_url_accessed_iff_witness:
  "target_url_accessed
     (compliance_check
        (analyze_results example_analyzer_env (example_execution ''Please NAVIGATE there'')
           example_details))
   \<and> (\<exists>w. sublist w ''Please NAVIGATE there'' \<and> ignoring_case w ''navigate'')
   \<and> ignoring_case ''NAVIGATE'' ''navigate''
   \<and> target_url_accessed
       (compliance_check
          (analyze_results example_analyzer_env (example_execution ''open http://x.test now'')
             example_details))
   \<and> \<not> target_url_accessed
         (compliance_check
            (analyze_results example_analyzer_env
               (example_execution ''clicked the login button'') example_details))
   \<and> \<not> target_url_accessed
         (compliance_check
            (analyze_results_script example_analyzer_env
               ((example_execution ''navigate'')\<lparr> er_execution_steps := None \<rparr>)
               example_details))"
proof -
  have a: "target_url_accessed
     (compliance_check
        (analyze_results example_analyzer_env (example_execution ''Please NAVIGATE there'')
           example_details))"
    by code_simp
  have b: "py_lower ''NAVIGATE'' = ''navigate''"
    by code_simp
  have c: "target_url_accessed
       (compliance_check
          (analyze_results example_analyzer_env (example_execution ''open http://x.test now'')
             example_details))"
    by code_simp
  have d: "\<not> target_url_accessed
         (compliance_check
            (analyze_results example_analyzer_env
               (example_execution ''clicked the login button'') example_details))"
    by code_simp
  have e: "\<not> target_url_accessed
         (compliance_check
            (analyze_results_script example_analyzer_env
               ((example_execution ''navigate'')\<lparr> er_execution_steps := None \<rparr>)
               example_details))"
    by code_simp
  from b have b': "ignoring_case ''NAVIGATE'' ''navigate''"
    by (simp add: py_lower_navigate)
  have n: "\<not> sublist ''http://x.test'' ''Please NAVIGATE there''"
    by code_simp
  from a target_url_accessed_iff[of example_analyzer_env
      "example_execution ''Please NAVIGATE there''" example_details] n
  have f: "\<exists>w. sublist w ''Please NAVIGATE there'' \<and> ignoring_case w ''navigate''"
    by (simp add: example_execution_def example_details_def)
  show ?thesis
    using a b' c d e f by blast
qed

text \<open>
  Claim C7, as the specification states it, fails: a successful run that reached the URL
  and captured no screenshot gets the positive entry alone, with no count after it.
\<close>

theorem recommendations_counterexample:
  "recommendations
     (analyze_results example_analyzer_env (example_execution ''navigate to http://x.test'')
        example_details)
     = [''Task appears to have completed successfully'']
   \<and> er_success (example_execution ''navigate to http://x.test'') = Some True
   \<and> er_screenshots (example_execution ''navigate to http://x.test'') = Some []
   \<and> target_url_accessed
        (compliance_check
          (analyze_results example_analyzer_env (example_execution ''navigate to http://x.test'')
            example_details))
   \<and> claimed_recommendations True True False ''http://x.test'' 0
     = [''Task appears to have completed successfully'',
        ''Successfully captured 0 screenshots'']
   \<and> recommendations
     (analyze_results example_analyzer_env (example_execution ''navigate to http://x.test'')
        example_details)
     \<noteq> claimed_recommendations True True False ''http://x.test'' 0"
  by (simp add: analyze_results_def claimed_recommendations_def Let_def get_or_def
      step_hits_def py_lower_def lower_char_def example_analyzer_env_def
      example_execution_def example_details_def rec_done_def str_nat_zero)

text \<open>
  What both analyzers report and recommend, once the five values they read from their
  inputs are named.
\<close>

lemma recommendations_form:
  assumes "get_or (er_success res) False = ok"
      and "get_or (target_url instr) [] = url"
      and "py_any (step_hits url) (get_or (er_execution_steps res) []) = reached"
      and "length (get_or (screenshot_instructions instr) []) = n_required"
      and "length (get_or (er_screenshots res) []) = n_captured"
  shows "es_success (rr_execution_summary (analyze_results env res instr)) = ok
     \<and> target_url_accessed (compliance_check (analyze_results env res instr)) = reached
     \<and> screenshots_captured (compliance_check (analyze_results env res instr))
         = \<lparr> required = n_required, captured = n_captured,
             meets_requirements = (n_required \<le> n_captured) \<rparr>
     \<and> recommendations (analyze_results env res instr)
         = ((if \<not> ok then [''Task execution failed - check error logs''] else [])
          @ (if \<not> reached
             then [''Target URL '' @ url @ '' may not have been properly accessed''] else [])
          @ (if n_captured < n_required
             then [''Not all required screenshots were captured''] else []))
           @ (if ok \<and> reached
              then ''Task appears to have completed successfully''
                   # (if 0 < n_captured
                      then [''Successfully captured '' @ str_nat n_captured @ '' screenshots'']
                      else [])
              else [])
     \<and> es_success (rr_execution_summary (analyze_results_script env res instr)) = ok
     \<and> target_url_accessed (compliance_check (analyze_results_script env res instr)) = reached
     \<and> screenshots_captured (compliance_check (analyze_results_script env res instr))
         = \<lparr> required = n_required, captured = n_captured,
             meets_requirements = (n_required \<le> n_captured) \<rparr>
     \<and> recommendations (analyze_results_script env res instr)
         = ((if \<not> ok then [''Task execution failed - check error logs''] else [])
          @ (if \<not> reached
             then [''Target URL '' @ url @ '' may not have been properly accessed''] else [])
          @ (if n_captured < n_required
             then [''Not all required screenshots were captured''] else []))
           @ (if ok \<and> reached then [''Task appears to have completed successfully'']
              else [])"
  using assms
  by (cases ok; cases reached; cases "n_captured < n_required"; cases "n_captured = 0")
     (auto simp: analyze_results_def analyze_results_script_def Let_def
        rec_failed_def rec_url_def rec_shots_def rec_done_def rec_count_def)

text \<open>
  Claim C7, amended. Read from the inputs: the run succeeded when \<open>success\<close> is present
  and true; the URL was reached as claim C6 says; the requirement is unmet when fewer
  screenshots were captured than instructions required. The report carries exactly
  these values, and the recommendations are generated in the fixed order: the
  check-error-logs entry if the run did not succeed; the verify-target-URL entry if
  the URL was not reached; the not-all-screenshots entry if the requirement is unmet;
  and, if the run succeeded and the URL was reached, the positive entry, which
  \<^verbatim>\<open>api_server.py\<close> follows with the captured-count entry only when at least one
  screenshot was captured and the script never does.
\<close>

theorem recommendations_order:
  "(let ok = (er_success res = Some True);
        steps = (case er_execution_steps res of None \<Rightarrow> [] | Some s \<Rightarrow> s);
        url = (case target_url instr of None \<Rightarrow> [] | Some u \<Rightarrow> u);
        reached =
          (\<exists>step \<in> set steps.
             sublist url (case sd_action step of None \<Rightarrow> [] | Some a \<Rightarrow> a)
             \<or> (\<exists>w. sublist w (case sd_action step of None \<Rightarrow> [] | Some a \<Rightarrow> a)
                    \<and> ignoring_case w ''navigate''));
        n_required =
          length (case screenshot_instructions instr of None \<Rightarrow> [] | Some r \<Rightarrow> r);
        n_captured = length (case er_screenshots res of None \<Rightarrow> [] | Some c \<Rightarrow> c);
        first_three =
          (if \<not> ok then [''Task execution failed - check error logs''] else [])
          @ (if \<not> reached
             then [''Target URL '' @ url @ '' may not have been properly accessed''] else [])
          @ (if n_captured < n_required
             then [''Not all required screenshots were captured''] else [])
    in es_success (rr_execution_summary (analyze_results env res instr)) = ok
     \<and> target_url_accessed (compliance_check (analyze_results env res instr)) = reached
     \<and> screenshots_captured (compliance_check (analyze_results env res instr))
         = \<lparr> required = n_required, captured = n_captured,
             meets_requirements = (n_required \<le> n_captured) \<rparr>
     \<and> recommendations (analyze_results env res instr)
         = first_three
           @ (if ok \<and> reached
              then ''Task appears to have completed successfully''
                   # (if 0 < n_captured
                      then [''Successfully captured '' @ str_nat n_captured @ '' screenshots'']
                      else [])
              else [])
     \<and> es_success (rr_execution_summary (analyze_results_script env res instr)) = ok
     \<and> target_url_accessed (compliance_check (analyze_results_script env res instr)) = reached
     \<and> screenshots_captured (compliance_check (analyze_results_script env res instr))
         = \<lparr> required = n_required, captured = n_captured,
             meets_requirements = (n_required \<le> n_captured) \<rparr>
     \<and> recommendations (analyze_results_script env res instr)
         = first_three
           @ (if ok \<and> reached then [''Task appears to have completed successfully'']
              else []))"
proof -
  have ok: "get_or (er_success res) False = (er_success res = Some True)"
    by (cases "er_success res") (simp_all add: get_or_def)
  have url: "get_or (target_url instr) []
      = (case target_url instr of None \<Rightarrow> [] | Some u \<Rightarrow> u)"
    by (simp add: get_or_def)
  have reached: "py_any (step_hits (case target_url instr of None \<Rightarrow> [] | Some u \<Rightarrow> u))
                   (get_or (er_execution_steps res) [])
      = (\<exists>step \<in> set (case er_execution_steps res of None \<Rightarrow> [] | Some s \<Rightarrow> s).
             sublist (case target_url instr of None \<Rightarrow> [] | Some u \<Rightarrow> u)
               (case sd_action step of None \<Rightarrow> [] | Some a \<Rightarrow> a)
             \<or> (\<exists>w. sublist w (case sd_action step of None \<Rightarrow> [] | Some a \<Rightarrow> a)
                    \<and> ignoring_case w ''navigate''))"
    by (simp add: py_any_ex step_hits_raw get_or_def)
  have nr: "length (get_or (screenshot_instructions instr) [])
      = length (case screenshot_instructions instr of None \<Rightarrow> [] | Some r \<Rightarrow> r)"
    by (simp add: get_or_def)
  have nc: "length (get_or (er_screenshots res) [])
      = length (case er_screenshots res of None \<Rightarrow> [] | Some c \<Rightarrow> c)"
    by (simp add: get_or_def)
  show ?thesis
    unfolding Let_def by (rule recommendations_form[OF ok url reached nr nc])
qed

theorem recommendations_order_witness:
  "recommendations
     (analyze_results example_analyzer_env
        ((example_execution ''navigate to http://x.test'')
           \<lparr> er_screenshots := Some [''a.png'', ''b.png''] \<rparr>)
        (example_details
           \<lparr> screenshot_instructions :=
               Some [example_shot_instruction ''home'', example_shot_instruction ''cart''] \<rparr>))
     = [''Task appears to have completed successfully'',
        ''Successfully captured 2 screenshots'']
   \<and> screenshots_captured
       (compliance_check
         (analyze_results example_analyzer_env
            ((example_execution ''navigate to http://x.test'')
               \<lparr> er_screenshots := Some [''a.png'', ''b.png''] \<rparr>)
            (example_details
               \<lparr> screenshot_instructions :=
                   Some [example_shot_instruction ''home'', example_shot_instruction ''cart''] \<rparr>)))
     = \<lparr> required = 2, captured = 2, meets_requirements = True \<rparr>
   \<and> recommendations
     (analyze_results example_analyzer_env
        ((example_execution ''navigate to http://x.test'')
           \<lparr> er_success := Some False, er_screenshots := Some [''a.png'', ''b.png''] \<rparr>)
        example_details)
     = [''Task execution failed - check error logs'']
   \<and> recommendations
     (analyze_results_script example_analyzer_env
        ((example_execution ''navigate to http://x.test'')
           \<lparr> er_success := None, er_screenshots := Some [''a.png''] \<rparr>)
        (example_details
           \<lparr> screenshot_instructions :=
               Some [example_shot_instruction ''home'', example_shot_instruction ''cart''] \<rparr>))
     = [''Task execution failed - check error logs'',
        ''Not all required screenshots were captured'']"
proof -
  have h: "sublist ''http://x.test'' ''navigate to http://x.test''"
    by code_simp
  have s2: "str_nat (Suc (Suc 0)) = ''2''"
    by code_simp
  show ?thesis
    using h s2
      recommendations_order[of
        "(example_execution ''navigate to http://x.test'')
           \<lparr> er_screenshots := Some [''a.png'', ''b.png''] \<rparr>"
        "example_details
           \<lparr> screenshot_instructions :=
               Some [example_shot_instruction ''home'', example_shot_instruction ''cart''] \<rparr>"
        example_analyzer_env]
      recommendations_order[of
        "(example_execution ''navigate to http://x.test'')
           \<lparr> er_success := Some False, er_screenshots := Some [''a.png'', ''b.png''] \<rparr>"
        example_details example_analyzer_env]
      recommendations_order[of
        "(example_execution ''navigate to http://x.test'')
           \<lparr> er_success := None, er_screenshots := Some [''a.png''] \<rparr>"
        "example_details
           \<lparr> screenshot_instructions :=
               Some [example_shot_instruction ''home'', example_shot_instruction ''cart''] \<rparr>"
        example_analyzer_env]
    by (simp add: Let_def example_execution_def example_details_def numeral_2_eq_2)
qed

text \<open>
  Claim C10. When the results hold at least one step and \<open>target_url\<close> is absent or the
  empty string, \<open>target_url_accessed\<close> is true in both programs, whatever the steps say.
\<close>

theorem empty_target_url_accessed:
  assumes "er_execution_steps res = Some (step # steps)"
      and "target_url instr = None \<or> target_url instr = Some ''''"
  shows "target_url_accessed (compliance_check (analyze_results env res instr))
       \<and> target_url_accessed (compliance_check (analyze_results_script env res instr))"
proof -
  have url: "get_or (target_url instr) '''' = ''''"
    using assms(2) by (auto simp: get_or_def)
  have hit: "step_hits '''' step"
    by (simp add: step_hits_def str_in_sublist)
  have steps: "get_or (er_execution_steps res) [] = step # steps"
    using assms(1) by (simp add: get_or_def)
  show ?thesis
    using hit by (simp add: analyze_results_def analyze_results_script_def Let_def url steps)
qed

theorem empty_target_url_accessed_witness:
  "er_execution_steps (example_execution ''clicked the login button'')
     = Some [\<lparr> sd_action = Some ''clicked the login button'' \<rparr>]
   \<and> target_url (example_details\<lparr> target_url := None \<rparr>) = None
   \<and> target_url_accessed
       (compliance_check
          (analyze_results example_analyzer_env (example_execution ''clicked the login button'')
             (example_details\<lparr> target_url := None \<rparr>)))
   \<and> target_url_accessed
       (compliance_check
          (analyze_results_script example_analyzer_env
             (example_execution ''clicked the login button'')
             (example_details\<lparr> target_url := None \<rparr>)))"
  using empty_target_url_accessed
    [of "example_execution ''clicked the login button''"
        "\<lparr> sd_action = Some ''clicked the login button'' \<rparr>" "[]"
        "example_details\<lparr> target_url := None \<rparr>" example_analyzer_env]
  by (simp add: example_execution_def example_details_def)

section \<open>The loop of the normalizer\<close>

text \<open>An entry leaves the loop body with an exception exactly when it raises.\<close>

lemma process_step_isl: "isl (process_step env tid i step) = step_raises env step"
  by (cases step) (simp_all add: process_step_def step_raises_def Let_def split: sum.splits)

lemma process_step_script_isl:
  "isl (process_step_script env i step) = step_raises_script env step"
  by (simp add: process_step_script_def step_raises_script_def Let_def
      split: sum.splits option.splits)

lemma record_step_fields [simp]:
  "success (record_step info res) = success res"
  "error (record_step info res) = error res"
  "execution_steps (record_step info res) = execution_steps res @ [info]"
  by (simp_all add: record_step_def)

lemma record_step_script_fields [simp]:
  "success (record_step_script info res) = success res"
  "error (record_step_script info res) = error res"
  "execution_steps (record_step_script info res) = execution_steps res @ [info]"
  by (simp_all add: record_step_script_def)

text \<open>
  The loop touches neither \<open>success\<close> nor \<open>error\<close>; it appends the steps of the entries
  before the first that raises, and ends with that entry's exception.
\<close>

lemma process_history_fields:
  "success (fst (process_history env tid i ss res)) = success res
   \<and> error (fst (process_history env tid i ss res)) = error res
   \<and> execution_steps (fst (process_history env tid i ss res))
       = execution_steps res @ good_steps env tid i ss
   \<and> snd (process_history env tid i ss res) = first_raise env tid i ss"
  by (induction ss arbitrary: i res) (simp_all split: sum.splits)

lemma process_history_script_fields:
  "success (fst (process_history_script env i ss res)) = success res
   \<and> error (fst (process_history_script env i ss res)) = error res
   \<and> execution_steps (fst (process_history_script env i ss res))
       = execution_steps res @ good_steps_script env i ss
   \<and> snd (process_history_script env i ss res) = first_raise_script env i ss"
  by (induction ss arbitrary: i res) (simp_all split: sum.splits)

lemma first_raise_None:
  "(first_raise env tid i ss = None) = (\<forall>s \<in> set ss. \<not> step_raises env s)"
proof (induction ss arbitrary: i)
  case Nil
  then show ?case by simp
next
  case (Cons s ss)
  show ?case
    using Cons.IH process_step_isl[of env tid i s]
    by (cases "process_step env tid i s") simp_all
qed

lemma first_raise_script_None:
  "(first_raise_script env i ss = None) = (\<forall>s \<in> set ss. \<not> step_raises_script env s)"
proof (induction ss arbitrary: i)
  case Nil
  then show ?case by simp
next
  case (Cons s ss)
  show ?case
    using Cons.IH process_step_script_isl[of env i s]
    by (cases "process_step_script env i s") simp_all
qed

lemma first_raise_Some:
  "first_raise env tid i ss = Some e \<Longrightarrow>
     process_step env tid (i + length (takeWhile (\<lambda>s. \<not> step_raises env s) ss))
       (ss ! length (takeWhile (\<lambda>s. \<not> step_raises env s) ss)) = Inl e"
proof (induction ss arbitrary: i)
  case Nil
  then show ?case by simp
next
  case (Cons s ss)
  show ?case
  proof (cases "process_step env tid i s")
    case (Inl e')
    then have "step_raises env s" using process_step_isl[of env tid i s] by simp
    with Inl Cons.prems show ?thesis by simp
  next
    case (Inr info)
    then have good: "\<not> step_raises env s" using process_step_isl[of env tid i s] by simp
    from Inr Cons.prems have "first_raise env tid (Suc i) ss = Some e" by simp
    from Cons.IH[OF this] good show ?thesis by simp
  qed
qed

lemma length_good_steps:
  "length (good_steps env tid i ss) = length (takeWhile (\<lambda>s. \<not> step_raises env s) ss)"
proof (induction ss arbitrary: i)
  case Nil
  then show ?case by simp
next
  case (Cons s ss)
  show ?case
    using Cons.IH process_step_isl[of env tid i s]
    by (cases "process_step env tid i s") simp_all
qed

lemma length_good_steps_script:
  "length (good_steps_script env i ss)
     = length (takeWhile (\<lambda>s. \<not> step_raises_script env s) ss)"
proof (induction ss arbitrary: i)
  case Nil
  then show ?case by simp
next
  case (Cons s ss)
  show ?case
    using Cons.IH process_step_script_isl[of env i s]
    by (cases "process_step_script env i s") simp_all
qed

lemma nth_good_steps:
  "k < length (good_steps env tid i ss) \<Longrightarrow>
     process_step env tid (i + k) (ss ! k) = Inr (good_steps env tid i ss ! k)"
proof (induction ss arbitrary: i k)
  case Nil
  then show ?case by simp
next
  case (Cons s ss)
  show ?case
  proof (cases "process_step env tid i s")
    case (Inl e)
    with Cons.prems show ?thesis by simp
  next
    case (Inr info)
    show ?thesis
    proof (cases k)
      case 0
      with Inr show ?thesis by simp
    next
      case (Suc j)
      with Inr Cons.prems have "j < length (good_steps env tid (Suc i) ss)" by simp
      from Cons.IH[OF this] Inr Suc show ?thesis by simp
    qed
  qed
qed

lemma nth_good_steps_script:
  "k < length (good_steps_script env i ss) \<Longrightarrow>
     process_step_script env (i + k) (ss ! k) = Inr (good_steps_script env i ss ! k)"
proof (induction ss arbitrary: i k)
  case Nil
  then show ?case by simp
next
  case (Cons s ss)
  show ?case
  proof (cases "process_step_script env i s")
    case (Inl e)
    with Cons.prems show ?thesis by simp
  next
    case (Inr info)
    show ?thesis
    proof (cases k)
      case 0
      with Inr show ?thesis by simp
    next
      case (Suc j)
      with Inr Cons.prems have "j < length (good_steps_script env (Suc i) ss)" by simp
      from Cons.IH[OF this] Inr Suc show ?thesis by simp
    qed
  qed
qed

lemma good_prefix_length:
  "(\<forall>s \<in> set ss. \<not> P s) \<Longrightarrow> takeWhile (\<lambda>s. \<not> P s) ss = ss"
  by (induction ss) simp_all

section \<open>The fields of the returned dictionary\<close>

lemma initial_results_fields [simp]:
  "execution_steps (initial_results env d t) = []"
  "success (initial_results env d t) = False"
  "error (initial_results env d t) = None"
  by (simp_all add: initial_results_def)

lemma save_execution_results_fields:
  "execution_steps (save_execution_results env h d tid) = good_steps env tid 0 (history_list h)"
  "success (save_execution_results env h d tid)
     = (history_list h \<noteq> [] \<and> first_raise env tid 0 (history_list h) = None)"
  "error (save_execution_results env h d tid)
     = (case dump_error env of
          Some m \<Rightarrow> Some (''Error saving results: '' @ m)
        | None \<Rightarrow> first_raise env tid 0 (history_list h))"
proof -
  let ?r0 = "initial_results env d (Some tid)"
  obtain res exc where ph: "process_history env tid 0 (history_list h) ?r0 = (res, exc)"
    by (cases "process_history env tid 0 (history_list h) ?r0")
  from process_history_fields[of env tid 0 "history_list h" ?r0] ph
  have f: "success res = False" "error res = None"
          "execution_steps res = good_steps env tid 0 (history_list h)"
          "exc = first_raise env tid 0 (history_list h)"
    by simp_all
  have e: "history_list h = [] \<Longrightarrow> first_raise env tid 0 (history_list h) = None"
          "history_list h = [] \<Longrightarrow> good_steps env tid 0 (history_list h) = []"
    by simp_all
  show "execution_steps (save_execution_results env h d tid)
          = good_steps env tid 0 (history_list h)"
    using ph[unfolded f(4)] f(1-3) e
    by (cases "history_list h = []"; cases "first_raise env tid 0 (history_list h)";
        cases "dump_error env")
       (simp_all add: save_execution_results_def Let_def)
  show "success (save_execution_results env h d tid)
     = (history_list h \<noteq> [] \<and> first_raise env tid 0 (history_list h) = None)"
    using ph[unfolded f(4)] f(1-3) e
    by (cases "history_list h = []"; cases "first_raise env tid 0 (history_list h)";
        cases "dump_error env")
       (simp_all add: save_execution_results_def Let_def)
  show "error (save_execution_results env h d tid)
     = (case dump_error env of
          Some m \<Rightarrow> Some (''Error saving results: '' @ m)
        | None \<Rightarrow> first_raise env tid 0 (history_list h))"
    using ph[unfolded f(4)] f(1-3) e
    by (cases "history_list h = []"; cases "first_raise env tid 0 (history_list h)";
        cases "dump_error env")
       (simp_all add: save_execution_results_def Let_def)
qed

lemma save_execution_results_script_fields:
  "execution_steps (save_execution_results_script env h d)
     = (if truthy h \<and> has_iter h then good_steps_script env 0 (py_list h) else [])"
  "success (save_execution_results_script env h d)
     = (truthy h \<and> has_iter h \<and> first_raise_script env 0 (py_list h) = None)"
  "error (save_execution_results_script env h d)
     = (if truthy h then
          (if has_iter h then first_raise_script env 0 (py_list h)
           else Some (not_iterable h))
        else None)"
proof -
  let ?r0 = "initial_results env d None"
  obtain res exc where ph: "process_history_script env 0 (py_list h) ?r0 = (res, exc)"
    by (cases "process_history_script env 0 (py_list h) ?r0")
  from process_history_script_fields[of env 0 "py_list h" ?r0] ph
  have f: "success res = False" "error res = None"
          "execution_steps res = good_steps_script env 0 (py_list h)"
          "exc = first_raise_script env 0 (py_list h)"
    by simp_all
  show "execution_steps (save_execution_results_script env h d)
     = (if truthy h \<and> has_iter h then good_steps_script env 0 (py_list h) else [])"
    using ph[unfolded f(4)] f(1-3)
    by (cases "first_raise_script env 0 (py_list h)"; cases "dump_error env")
       (simp_all add: save_execution_results_script_def Let_def)
  show "success (save_execution_results_script env h d)
     = (truthy h \<and> has_iter h \<and> first_raise_script env 0 (py_list h) = None)"
    using ph[unfolded f(4)] f(1-3)
    by (cases "first_raise_script env 0 (py_list h)"; cases "dump_error env")
       (simp_all add: save_execution_results_script_def Let_def)
  show "error (save_execution_results_script env h d)
     = (if truthy h then
          (if has_iter h then first_raise_script env 0 (py_list h)
           else Some (not_iterable h))
        else None)"
    using ph[unfolded f(4)] f(1-3)
    by (cases "first_raise_script env 0 (py_list h)"; cases "dump_error env")
       (simp_all add: save_execution_results_script_def Let_def)
qed

section \<open>One entry\<close>

lemma process_step_number:
  "process_step env tid i s = Inr info \<Longrightarrow> step_number info = i + 1"
  by (cases s)
     (auto simp: process_step_def Let_def with_screenshot_def split: sum.splits if_splits)

lemma process_step_tuple:
  "2 \<le> length items \<Longrightarrow>
     \<exists>info. process_step env tid i (PTuple items) = Inr info
       \<and> action info = (if truthy (items ! 0) then py_str env (items ! 0) else ''N/A'')
       \<and> result info = (if truthy (items ! 1) then py_str env (items ! 1) else ''N/A'')"
  by (simp add: process_step_def Let_def with_screenshot_def not_available_def)

lemma first_truthy_absent:
  "\<forall>a \<in> set attrs. \<not> hasattr s a \<Longrightarrow> first_truthy s attrs = None"
  by (induction attrs) (simp_all add: hasattr_def)

lemma attr_screenshot_absent:
  "\<forall>a \<in> set attrs. \<not> hasattr s a \<Longrightarrow> attr_screenshot env path s attrs = False"
  by (induction attrs) (simp_all add: hasattr_def)

lemma process_step_unknown:
  assumes "\<forall>items. s \<noteq> PTuple items"
      and "\<forall>a \<in> set (action_attrs @ result_attrs @ timestamp_attrs @ screenshot_attrs).
             \<not> hasattr s a"
  shows "process_step env tid i s =
           Inr \<lparr> step_number = i + 1, action = ''N/A'', result = ''N/A'',
                 timestamp = now_iso env, screenshot_url = None, screenshot = None \<rparr>"
proof -
  from assms(2) have a: "first_truthy s action_attrs = None"
    and r: "first_truthy s result_attrs = None"
    and t: "first_truthy s timestamp_attrs = None"
    and p: "\<And>path. attr_screenshot env path s screenshot_attrs = False"
    by (simp_all add: first_truthy_absent attr_screenshot_absent)
  show ?thesis
    using assms(1) a r t p
    by (cases s)
       (simp_all add: process_step_def Let_def extract_timestamp_def
          with_screenshot_def not_available_def)
qed

text \<open>Whether an entry raises does not depend on what the file operations do.\<close>

lemma step_raises_file_ops:
  "step_raises
     (env\<lparr> write_fails := fw, b64_fails := fb, path_exists := fe, copy_fails := fc \<rparr>) s
     = step_raises env s"
  by (cases s)
     (simp_all add: step_raises_def extract_timestamp_def split: option.splits)

text \<open>The script's loop does not read the outcome of writing the result file.\<close>

lemma py_str_dump_error: "py_str (env\<lparr> dump_error := x \<rparr>) v = py_str env v"
  by (cases v) simp_all

lemma process_step_script_dump_error:
  "process_step_script (env\<lparr> dump_error := x \<rparr>) i s = process_step_script env i s"
  by (simp add: process_step_script_def script_timestamp_def script_shot_raises_def
      py_str_dump_error Let_def cong: option.case_cong sum.case_cong pyval.case_cong)

lemma first_raise_script_dump_error:
  "first_raise_script (env\<lparr> dump_error := x \<rparr>) i ss = first_raise_script env i ss"
  by (induction ss arbitrary: i)
     (simp_all add: process_step_script_dump_error split: sum.splits)

lemmas normalizer_eval =
  save_execution_results_def save_execution_results_script_def initial_results_def
  history_list_def process_step_def process_step_script_def record_step_def
  record_step_script_def with_screenshot_def extract_timestamp_def script_timestamp_def
  step_raises_def step_raises_script_def hasattr_def
  action_attrs_def result_attrs_def timestamp_attrs_def screenshot_attrs_def
  example_env_def example_details_def example_tuple_def example_bad_clock_def
  example_object_def Let_def not_available_def

section \<open>The normalizer: claims C1, C3, C4 and C5\<close>

text \<open>
  \<open>save_execution_results\<close> is a total function into \<open>results\<close>: every statement of its
  body that can raise stands inside one of its two \<open>try\<close> blocks, whose handlers assign
  and print only, so no exception passes its boundary and it always returns the
  dictionary.
\<close>

text \<open>
  Claim C1, as the specification states it, fails in both directions. An empty history
  gives \<open>success = False\<close> with \<open>error = None\<close> in both programs; and in
  \<^verbatim>\<open>api_server.py\<close> a failed write of the result file after a good run gives
  \<open>success = True\<close> with the error \<open>Error saving results: ...\<close>.
\<close>

theorem success_error_counterexample:
  "\<not> success (save_execution_results example_env (PList []) example_details ''t1'')
   \<and> error (save_execution_results example_env (PList []) example_details ''t1'') = None
   \<and> success (save_execution_results (example_env\<lparr> dump_error := Some ''disk full'' \<rparr>)
                (PList [example_tuple]) example_details ''t1'')
   \<and> error (save_execution_results (example_env\<lparr> dump_error := Some ''disk full'' \<rparr>)
              (PList [example_tuple]) example_details ''t1'')
       = Some ''Error saving results: disk full''
   \<and> \<not> success (save_execution_results_script example_env PNone example_details)
   \<and> error (save_execution_results_script example_env PNone example_details) = None"
  by (simp add: normalizer_eval)

text \<open>
  Claim C1, amended. In \<^verbatim>\<open>api_server.py\<close>, when the result file is written,
  \<open>success = True\<close> carries \<open>error = None\<close>, and \<open>success = False\<close> carries an error
  (the message of the exception that ended the loop) unless the history is empty, for
  which the error stays \<open>None\<close>; when writing the file fails, the error is
  \<open>Error saving results: \<close> followed by the message, whatever \<open>success\<close> is. In the
  script, \<open>success = True\<close> carries \<open>error = None\<close>, and \<open>success = False\<close> carries an
  error unless the history is false (empty or absent), whether or not the file is written.
\<close>

theorem success_error_relation:
  "(dump_error env = None \<longrightarrow>
       (success (save_execution_results env h d tid)
          \<longrightarrow> error (save_execution_results env h d tid) = None)
     \<and> (\<not> success (save_execution_results env h d tid)
          \<longrightarrow> (error (save_execution_results env h d tid) = None) = (history_list h = [])))
   \<and> (\<forall>m. dump_error env = Some m \<longrightarrow>
          error (save_execution_results env h d tid) = Some (''Error saving results: '' @ m))
   \<and> (success (save_execution_results_script env h d)
         \<longrightarrow> error (save_execution_results_script env h d) = None)
   \<and> (\<not> success (save_execution_results_script env h d)
         \<longrightarrow> (error (save_execution_results_script env h d) = None) = (\<not> truthy h))"
  by (auto simp: save_execution_results_fields save_execution_results_script_fields)

theorem success_error_relation_witness:
  "dump_error example_env = None
   \<and> success (save_execution_results example_env (PList [example_tuple]) example_details ''t1'')
   \<and> error (save_execution_results example_env (PList [example_tuple]) example_details ''t1'')
       = None
   \<and> error (save_execution_results (example_env\<lparr> dump_error := Some ''disk full'' \<rparr>)
              (PList [example_tuple, example_bad_clock]) example_details ''t1'')
       = Some ''Error saving results: disk full''
   \<and> \<not> success (save_execution_results example_env (PList [example_bad_clock])
                  example_details ''t1'')
   \<and> history_list (PList [example_bad_clock]) \<noteq> []
   \<and> error (save_execution_results example_env (PList [example_bad_clock])
              example_details ''t1'')
       = Some ''clock unavailable''
   \<and> success (save_execution_results_script example_env (PList [example_object])
                example_details)
   \<and> error (save_execution_results_script example_env (PList [example_object])
              example_details)
       = None"
  using success_error_relation[of example_env "PList [example_tuple]" example_details "''t1''"]
    success_error_relation[of "example_env\<lparr> dump_error := Some ''disk full'' \<rparr>"
      "PList [example_tuple, example_bad_clock]" example_details "''t1''"]
    success_error_relation[of example_env "PList [example_bad_clock]" example_details "''t1''"]
    success_error_relation[of example_env "PList [example_object]" example_details "''t1''"]
  by (simp add: normalizer_eval)

text \<open>
  Claim C3, as the specification states it, fails in its second half: with everything
  else the same, the empty history gives \<open>success = False\<close> and a history of one entry
  gives \<open>success = True\<close>, so the flag does depend on the history being empty.
\<close>

theorem empty_history_counterexample:
  "\<not> success (save_execution_results example_env (PList []) example_details ''t1'')
   \<and> success (save_execution_results example_env (PList [example_tuple]) example_details ''t1'')
   \<and> \<not> success (save_execution_results_script example_env (PList []) example_details)
   \<and> success (save_execution_results_script example_env (PList [example_tuple])
                example_details)"
  by (simp add: normalizer_eval)

text \<open>
  Claim C3, amended. For an empty or absent raw history the normalizer produces zero
  steps and \<open>success = False\<close>. In \<^verbatim>\<open>api_server.py\<close> \<open>success\<close> is true exactly when the
  history, made a list, is not empty and no entry raises; in the script exactly when
  the history is true, iterable and no entry raises.
\<close>

theorem empty_history_result:
  "(history_list h = [] \<longrightarrow>
       execution_steps (save_execution_results env h d tid) = []
     \<and> \<not> success (save_execution_results env h d tid))
   \<and> history_list PNone = [] \<and> history_list (PList []) = []
   \<and> success (save_execution_results env h d tid)
       = (history_list h \<noteq> [] \<and> (\<forall>s \<in> set (history_list h). \<not> step_raises env s))
   \<and> (\<not> truthy h \<longrightarrow>
       execution_steps (save_execution_results_script env h d) = []
     \<and> \<not> success (save_execution_results_script env h d))
   \<and> success (save_execution_results_script env h d)
       = (truthy h \<and> has_iter h \<and> (\<forall>s \<in> set (py_list h). \<not> step_raises_script env s))"
  by (simp add: save_execution_results_fields save_execution_results_script_fields
      first_raise_None first_raise_script_None history_list_def)

theorem empty_history_result_witness:
  "history_list PNone = []
   \<and> execution_steps (save_execution_results example_env PNone example_details ''t1'') = []
   \<and> \<not> success (save_execution_results example_env PNone example_details ''t1'')
   \<and> \<not> truthy PNone
   \<and> execution_steps (save_execution_results_script example_env PNone example_details) = []"
  using empty_history_result[of PNone example_env example_details "''t1''"]
  by (simp add: history_list_def)

text \<open>
  Claim C4, as the specification states it, fails twice. A tuple whose element 0 is
  false, here the integer 0, gets the action \<open>N/A\<close> and not its string \<open>0\<close>. And a
  history of three entries whose second entry raises in its timestamp call yields one
  step, not three.
\<close>

theorem steps_in_input_order_counterexample:
  "map action
     (execution_steps
        (save_execution_results example_env (PList [PTuple [PInt 0, PStr ''done'']])
           example_details ''t1''))
     = [''N/A'']
   \<and> py_str example_env (PInt 0) = ''0''
   \<and> length
       (execution_steps
          (save_execution_results example_env
             (PList [example_tuple, example_bad_clock, example_object]) example_details ''t1''))
     = 1"
  by (simp add: normalizer_eval str_int_def str_nat_zero)

text \<open>
  Claim C4, amended. The normalizer never raises past its boundary. For a raw history
  of N entries none of which raises in its timestamp call, \<open>execution_steps\<close> has length
  N, in input order: step \<open>k\<close> is what the loop body builds from entry \<open>k\<close>, numbered
  \<open>k + 1\<close>. An entry that is a tuple of length at least 2 never raises and yields as
  action the string of element 0 when that element is true and \<open>N/A\<close> when it is false,
  and as outcome the same of element 1. An entry that is not a tuple and has none of
  the candidate attributes never raises and yields \<open>N/A\<close> for action and outcome.
\<close>

theorem steps_in_input_order:
  "((\<forall>s \<in> set (history_list h). \<not> step_raises env s) \<longrightarrow>
       length (execution_steps (save_execution_results env h d tid)) = length (history_list h)
     \<and> (\<forall>k < length (history_list h).
           process_step env tid k (history_list h ! k)
             = Inr (execution_steps (save_execution_results env h d tid) ! k)
         \<and> step_number (execution_steps (save_execution_results env h d tid) ! k) = k + 1))
   \<and> (\<forall>i items. 2 \<le> length items \<longrightarrow>
        (\<exists>info. process_step env tid i (PTuple items) = Inr info
           \<and> action info = (if truthy (items ! 0) then py_str env (items ! 0) else ''N/A'')
           \<and> result info = (if truthy (items ! 1) then py_str env (items ! 1) else ''N/A'')))
   \<and> (\<forall>i s. (\<forall>items. s \<noteq> PTuple items)
           \<and> (\<forall>a \<in> set (action_attrs @ result_attrs @ timestamp_attrs @ screenshot_attrs).
                 \<not> hasattr s a) \<longrightarrow>
        process_step env tid i s =
          Inr \<lparr> step_number = i + 1, action = ''N/A'', result = ''N/A'',
                timestamp = now_iso env, screenshot_url = None, screenshot = None \<rparr>)"
proof (intro conjI impI allI)
  assume ok: "\<forall>s \<in> set (history_list h). \<not> step_raises env s"
  then have len: "length (good_steps env tid 0 (history_list h)) = length (history_list h)"
    by (simp add: length_good_steps good_prefix_length)
  then show "length (execution_steps (save_execution_results env h d tid))
               = length (history_list h)"
    by (simp add: save_execution_results_fields)
  fix k assume k: "k < length (history_list h)"
  with len nth_good_steps[of k env tid 0 "history_list h"]
  show st: "process_step env tid k (history_list h ! k)
          = Inr (execution_steps (save_execution_results env h d tid) ! k)"
    by (simp add: save_execution_results_fields)
  from process_step_number[OF st]
  show "step_number (execution_steps (save_execution_results env h d tid) ! k) = k + 1" .
next
  fix i items assume "2 \<le> length (items :: pyval list)"
  then show "\<exists>info. process_step env tid i (PTuple items) = Inr info
           \<and> action info = (if truthy (items ! 0) then py_str env (items ! 0) else ''N/A'')
           \<and> result info = (if truthy (items ! 1) then py_str env (items ! 1) else ''N/A'')"
    by (rule process_step_tuple)
next
  fix i s
  assume "(\<forall>items. s \<noteq> PTuple items)
           \<and> (\<forall>a \<in> set (action_attrs @ result_attrs @ timestamp_attrs @ screenshot_attrs).
                 \<not> hasattr s a)"
  then show "process_step env tid i s =
          Inr \<lparr> step_number = i + 1, action = ''N/A'', result = ''N/A'',
                timestamp = now_iso env, screenshot_url = None, screenshot = None \<rparr>"
    using process_step_unknown[of s env tid i] by blast
qed

theorem steps_in_input_order_witness:
  "\<not> step_raises example_env example_tuple \<and> \<not> step_raises example_env (PInt 7)
   \<and> map action
       (execution_steps
          (save_execution_results example_env (PList [example_tuple, PInt 7])
             example_details ''t1''))
     = [''click login'', ''N/A'']
   \<and> map result
       (execution_steps
          (save_execution_results example_env (PList [example_tuple, PInt 7])
             example_details ''t1''))
     = [''ok'', ''N/A'']"
  using steps_in_input_order[of "PList [example_tuple, PInt 7]" example_env
      example_details "''t1''"]
  by (simp add: normalizer_eval)

text \<open>
  Claim C5, as the specification states it, fails: an exception in one entry outside
  the screenshot code ends the loop. Of three entries whose second raises in its
  timestamp call only the first is returned, although the third can be extracted; the
  run has \<open>success = False\<close> and the exception's message as error. In the script an
  entry whose \<open>timestamp\<close> is a string ends the loop too, and a failed write of the
  result file is not reported in \<open>error\<close>.
\<close>

theorem partial_results_counterexample:
  "map action
     (execution_steps
        (save_execution_results example_env
           (PList [example_tuple, example_bad_clock, example_object]) example_details ''t1''))
     = [''click login'']
   \<and> map_sum id action (process_step example_env ''t1'' 2 example_object)
       = Inr ''submit form''
   \<and> \<not> success
         (save_execution_results example_env
            (PList [example_tuple, example_bad_clock, example_object]) example_details ''t1'')
   \<and> error
       (save_execution_results example_env
          (PList [example_tuple, example_bad_clock, example_object]) example_details ''t1'')
     = Some ''clock unavailable''
   \<and> map action
       (execution_steps
          (save_execution_results_script example_env
             (PList [PObj ''Step'' ''Step()'' [(''timestamp'', PStr ''12:00'')], example_object])
             example_details))
     = []
   \<and> error
       (save_execution_results_script (example_env\<lparr> dump_error := Some ''disk full'' \<rparr>)
          (PList [example_object]) example_details)
     = None"
  by (simp add: normalizer_eval)

text \<open>
  Claim C5, amended. An exception while saving the screenshot of an entry is caught
  inside the entry: whether an entry raises does not depend on the file operations.
  Any other exception in an entry ends the loop: the returned steps are those of the
  entries before the first entry that raises, in order; when there is such an entry
  \<open>success\<close> is false and, if the result file is written, \<open>error\<close> is that entry's
  exception. The entries after it are not extracted. In \<^verbatim>\<open>api_server.py\<close> a failed
  write of the result file is reported as \<open>Error saving results: \<close> and the message,
  and the same steps are returned; in the script it does not change \<open>error\<close>.
\<close>

theorem partial_results_kept:
  "length (execution_steps (save_execution_results env h d tid))
     = length (takeWhile (\<lambda>s. \<not> step_raises env s) (history_list h))
   \<and> (\<forall>k < length (takeWhile (\<lambda>s. \<not> step_raises env s) (history_list h)).
         process_step env tid k (history_list h ! k)
           = Inr (execution_steps (save_execution_results env h d tid) ! k))
   \<and> (takeWhile (\<lambda>s. \<not> step_raises env s) (history_list h) \<noteq> history_list h \<longrightarrow>
         \<not> success (save_execution_results env h d tid)
       \<and> (\<exists>e. process_step env tid
                 (length (takeWhile (\<lambda>s. \<not> step_raises env s) (history_list h)))
                 (history_list h ! length (takeWhile (\<lambda>s. \<not> step_raises env s) (history_list h)))
               = Inl e
            \<and> (dump_error env = None \<longrightarrow>
                 error (save_execution_results env h d tid) = Some e)))
   \<and> (\<forall>m. dump_error env = Some m \<longrightarrow>
         error (save_execution_results env h d tid) = Some (''Error saving results: '' @ m))
   \<and> (\<forall>fw fb fe fc s.
         step_raises
           (env\<lparr> write_fails := fw, b64_fails := fb, path_exists := fe, copy_fails := fc \<rparr>) s
           = step_raises env s)
   \<and> length (execution_steps (save_execution_results_script env h d))
       = (if truthy h \<and> has_iter h
          then length (takeWhile (\<lambda>s. \<not> step_raises_script env s) (py_list h)) else 0)
   \<and> (truthy h \<and> has_iter h \<longrightarrow>
        (\<forall>k < length (takeWhile (\<lambda>s. \<not> step_raises_script env s) (py_list h)).
           process_step_script env k (py_list h ! k)
             = Inr (execution_steps (save_execution_results_script env h d) ! k)))
   \<and> error (save_execution_results_script (env\<lparr> dump_error := Some m' \<rparr>) h d)
       = error (save_execution_results_script (env\<lparr> dump_error := None \<rparr>) h d)"
proof -
  let ?good = "takeWhile (\<lambda>s. \<not> step_raises env s) (history_list h)"
  have a: "length (execution_steps (save_execution_results env h d tid)) = length ?good"
    by (simp add: save_execution_results_fields length_good_steps)
  have b: "\<forall>k < length ?good. process_step env tid k (history_list h ! k)
           = Inr (execution_steps (save_execution_results env h d tid) ! k)"
    using nth_good_steps[of _ env tid 0 "history_list h"]
    by (simp add: save_execution_results_fields length_good_steps)
  have c: "?good \<noteq> history_list h \<longrightarrow>
         \<not> success (save_execution_results env h d tid)
       \<and> (\<exists>e. process_step env tid (length ?good) (history_list h ! length ?good) = Inl e
            \<and> (dump_error env = None \<longrightarrow>
                 error (save_execution_results env h d tid) = Some e))"
  proof
    assume "?good \<noteq> history_list h"
    then have "\<not> (\<forall>s \<in> set (history_list h). \<not> step_raises env s)"
      using good_prefix_length[of "history_list h" "step_raises env"] by blast
    then have "first_raise env tid 0 (history_list h) \<noteq> None"
      by (simp add: first_raise_None)
    then obtain e where e: "first_raise env tid 0 (history_list h) = Some e"
      by blast
    from first_raise_Some[OF e] e
    show "\<not> success (save_execution_results env h d tid)
       \<and> (\<exists>e. process_step env tid (length ?good) (history_list h ! length ?good) = Inl e
            \<and> (dump_error env = None \<longrightarrow>
                 error (save_execution_results env h d tid) = Some e))"
      by (auto simp: save_execution_results_fields)
  qed
  have dd: "\<forall>m. dump_error env = Some m \<longrightarrow>
         error (save_execution_results env h d tid) = Some (''Error saving results: '' @ m)"
    by (simp add: save_execution_results_fields)
  have e: "\<forall>fw fb fe fc s.
         step_raises
           (env\<lparr> write_fails := fw, b64_fails := fb, path_exists := fe, copy_fails := fc \<rparr>) s
           = step_raises env s"
    by (simp add: step_raises_file_ops)
  have f: "length (execution_steps (save_execution_results_script env h d))
       = (if truthy h \<and> has_iter h
          then length (takeWhile (\<lambda>s. \<not> step_raises_script env s) (py_list h)) else 0)"
    by (simp add: save_execution_results_script_fields length_good_steps_script)
  have g: "truthy h \<and> has_iter h \<longrightarrow>
        (\<forall>k < length (takeWhile (\<lambda>s. \<not> step_raises_script env s) (py_list h)).
           process_step_script env k (py_list h ! k)
             = Inr (execution_steps (save_execution_results_script env h d) ! k))"
    using nth_good_steps_script[of _ env 0 "py_list h"]
    by (simp add: save_execution_results_script_fields length_good_steps_script)
  have i: "error (save_execution_results_script (env\<lparr> dump_error := Some m' \<rparr>) h d)
       = error (save_execution_results_script (env\<lparr> dump_error := None \<rparr>) h d)"
    by (simp add: save_execution_results_script_fields first_raise_script_dump_error)
  from a b c dd e f g i show ?thesis by blast
qed

theorem partial_results_kept_witness:
  "takeWhile (\<lambda>s. \<not> step_raises example_env s)
     (history_list (PList [example_tuple, example_bad_clock, example_object]))
     = [example_tuple]
   \<and> length
       (execution_steps
          (save_execution_results example_env
             (PList [example_tuple, example_bad_clock, example_object]) example_details ''t1''))
     = 1
   \<and> dump_error example_env = None
   \<and> error
       (save_execution_results example_env
          (PList [example_tuple, example_bad_clock, example_object]) example_details ''t1'')
     = Some ''clock unavailable''
   \<and> length
       (execution_steps
          (save_execution_results (example_env\<lparr> dump_error := Some ''disk full'' \<rparr>)
             (PList [example_tuple, example_bad_clock, example_object]) example_details ''t1''))
     = 1
   \<and> error
       (save_execution_results (example_env\<lparr> dump_error := Some ''disk full'' \<rparr>)
          (PList [example_tuple, example_bad_clock, example_object]) example_details ''t1'')
     = Some ''Error saving results: disk full''
   \<and> truthy (PList [example_object]) \<and> has_iter (PList [example_object])
   \<and> map action
       (execution_steps
          (save_execution_results_script example_env (PList [example_object])
             example_details))
     = [''N/A'']"
  using partial_results_kept[of example_env
      "PList [example_tuple, example_bad_clock, example_object]" example_details "''t1''"]
    partial_results_kept[of "example_env\<lparr> dump_error := Some ''disk full'' \<rparr>"
      "PList [example_tuple, example_bad_clock, example_object]" example_details "''t1''"]
    partial_results_kept[of example_env "PList [example_object]" example_details "''t1''"]
  by (simp add: normalizer_eval)

section \<open>Writes to the task store\<close>

lemma update_task_simps [simp]:
  "status_writes (update_task tid f w) = status_writes w"
  "close_calls (update_task tid f w) = close_calls w"
  "task_storage (update_task tid f w) k =
     (if k = tid then map_option f (task_storage w tid) else task_storage w k)"
  by (simp_all add: update_task_def split: option.splits)

lemma set_progress_simps [simp]:
  "status_writes (set_progress tid txt w) = status_writes w"
  "close_calls (set_progress tid txt w) = close_calls w"
  "status_of (set_progress tid txt w) k = status_of w k"
  "task_storage (set_progress tid txt w) k =
     (if k = tid then map_option (\<lambda>t. t\<lparr> progress := Some txt \<rparr>) (task_storage w tid)
      else task_storage w k)"
  by (simp_all add: set_progress_def status_of_def option.map_comp comp_def)

lemma set_status_simps [simp]:
  "status_writes (set_status tid st w) = status_writes w @ [(tid, st)]"
  "close_calls (set_status tid st w) = close_calls w"
  "status_of (set_status tid st w) k =
     (if k = tid then map_option (\<lambda>s. st) (status_of w tid) else status_of w k)"
  "task_storage (set_status tid st w) k =
     (if k = tid then map_option (\<lambda>t. t\<lparr> status := st \<rparr>) (task_storage w tid)
      else task_storage w k)"
  by (simp_all add: set_status_def status_of_def split: option.splits)

lemma status_of_close_calls [simp]:
  "status_of (w\<lparr> close_calls := n \<rparr>) k = status_of w k"
  by (simp add: status_of_def)

lemma status_of_update_task:
  "(\<And>t. status (f t) = status t) \<Longrightarrow> status_of (update_task tid f w) k = status_of w k"
  by (simp add: status_of_def option.map_comp comp_def)

text \<open>
  The body of the \<open>try\<close>: when it returns it has written \<open>completed\<close> once and called
  \<open>close()\<close> once; when it raises it has written no status.
\<close>

lemma run_automation_returns:
  assumes "run_automation env auto details tid w = (w', Inr r)"
  shows "status_writes w' = status_writes w @ [(tid, Completed)]
       \<and> close_calls w' = Suc (close_calls w)
       \<and> status_of w' tid = map_option (\<lambda>s. Completed) (status_of w tid)"
  using assms
  by (auto simp: run_automation_def Let_def status_of_update_task
      split: sum.splits option.splits if_splits)

lemma run_automation_raises:
  assumes "run_automation env auto details tid w = (w', Inl (e, created))"
  shows "status_writes w' = status_writes w \<and> status_of w' tid = status_of w tid"
  using assms
  by (auto simp: run_automation_def Let_def create_browser_agent_def
      split: sum.splits option.splits if_splits)

lemma execute_test_accepts:
  assumes "execute_test env auto url d shots w = (w1, Inr resp)"
  shows "sr_status resp = Pending
       \<and> status_of w1 (sr_task_id resp) = Some Pending
       \<and> status_writes w1 = status_writes w @ [(sr_task_id resp, Pending)]"
  using assms
  by (auto simp: execute_test_def Let_def status_of_def split: if_splits)

lemma execute_task_statuses:
  assumes "status_of w tid = Some s0"
      and "execute_task env auto url d shots tid w = (w', out)"
  shows "\<exists>final. status_of w' tid = Some final
           \<and> status_writes w' =
               status_writes w @ (tid, Running) # (if final = Running then [] else [(tid, final)])
           \<and> (final = Running \<or> final = Completed \<or> final = Failed)
           \<and> (final = Running) = (logging_error auto \<noteq> None)"
proof -
  from assms(1) obtain t0 where t0: "task_storage w tid = Some t0"
    by (auto simp: status_of_def)
  let ?details = "\<lparr> target_url = Some url, task_description = Some d,
                    screenshot_instructions = Some shots \<rparr>"
  let ?w1 = "set_progress tid ''Setting up logging...'' (set_status tid Running w)"
  have w1: "status_of ?w1 tid = Some Running"
    "status_writes ?w1 = status_writes w @ [(tid, Running)]"
    using assms(1) by simp_all
  show ?thesis
  proof (cases "logging_error auto")
    case (Some e)
    with assms(2) t0 have "w' = ?w1"
      by (simp add: execute_task_def Let_def)
    with w1 Some show ?thesis by simp
  next
    case None
    obtain w2 res where run: "run_automation env auto ?details tid ?w1 = (w2, res)"
      by (cases "run_automation env auto ?details tid ?w1")
    show ?thesis
    proof (cases res)
      case (Inr r)
      with run assms(2) t0 None have "w' = w2"
        by (simp add: execute_task_def Let_def)
      moreover from run_automation_returns[of env auto ?details tid ?w1 w2 r] run Inr w1
      have "status_writes w2 = status_writes w @ [(tid, Running), (tid, Completed)]"
        and "status_of w2 tid = Some Completed"
        by simp_all
      ultimately show ?thesis using None by simp
    next
      case (Inl p)
      obtain e created where p: "p = (e, created)" by (cases p)
      from run Inl p assms(2) t0 None
      have w': "w' = update_task tid
                  (\<lambda>t. t\<lparr> end_time := Some (now_iso env), t_error := Some e,
                          t_results := Some
                            \<lparr> r_task_id = Some tid, r_timestamp = now_iso env,
                              task_details = ?details, execution_steps = [],
                              screenshots = [], screenshot_urls = [], success = False,
                              error = Some e, full_conversation = [], log_file = None,
                              detailed_log_file = Some (detailed_log_path env tid),
                              stdout_log_file = Some (stdout_log_path env tid),
                              stderr_log_file = Some (stderr_log_path env tid),
                              agent_thoughts_file =
                                (if created then Some (thoughts_path tid) else None) \<rparr> \<rparr>)
                  (set_status tid Failed w2)"
        by (simp add: execute_task_def Let_def)
      from run_automation_raises[of env auto ?details tid ?w1 w2 e created] run Inl p w1
      have "status_writes w2 = status_writes w @ [(tid, Running)]"
        and "status_of w2 tid = Some Running"
        by simp_all
      with w' None show ?thesis
        by (simp add: status_of_update_task)
    qed
  qed
qed

lemma analyze_endpoint_keeps_status:
  "status_writes (fst (analyze_results_endpoint env auto tid w)) = status_writes w
   \<and> status_of (fst (analyze_results_endpoint env auto tid w)) k = status_of w k"
  by (simp add: analyze_results_endpoint_def Let_def status_of_update_task
      split: option.splits sum.splits)

lemmas service_eval =
  execute_test_def execute_task_def run_automation_def create_browser_agent_def
  capture_manual_screenshot_def add_manual_screenshot_def save_execution_results_def
  initial_results_def history_list_def process_step_def record_step_def with_screenshot_def
  execute_task_script_def save_execution_results_script_def
  get_task_results_def analyze_results_endpoint_def status_of_def
  example_world_def example_automation_def example_env_def example_task_def
  example_pending_world_def Let_def not_available_def

section \<open>The orchestrator and the endpoints: claims C2, C8 and C9\<close>

text \<open>
  Claim C8. A task accepted by \<open>execute_test\<close> is stored and reported with status
  \<open>pending\<close>. The run that follows writes \<open>running\<close> first and then at most one of
  \<open>completed\<close> and \<open>failed\<close>: the statuses written are \<open>pending, running\<close> followed by
  nothing (only when the logging setup raises before the \<open>try\<close>), by \<open>completed\<close> or by
  \<open>failed\<close>, which is a path of the state machine, and the stored status is the last
  one written. The analysis endpoint, the only other code that writes to a record,
  writes no status, so \<open>completed\<close> and \<open>failed\<close> stay.
\<close>

theorem status_state_machine:
  assumes "execute_test env auto url d shots w = (w1, Inr resp)"
      and "execute_task env2 auto2 url d shots (sr_task_id resp) w1 = (w2, out)"
  shows "sr_status resp = Pending
       \<and> status_of w1 (sr_task_id resp) = Some Pending
       \<and> (\<exists>final.
             status_of w2 (sr_task_id resp) = Some final
           \<and> status_writes w2 =
               status_writes w @ (sr_task_id resp, Pending) # (sr_task_id resp, Running)
                 # (if final = Running then [] else [(sr_task_id resp, final)])
           \<and> (final = Running \<or> final = Completed \<or> final = Failed)
           \<and> (final = Running) = (logging_error auto2 \<noteq> None)
           \<and> successively transition
                 (Pending # Running # (if final = Running then [] else [final])))
       \<and> status_writes (fst (analyze_results_endpoint env3 auto3 tid3 w2)) = status_writes w2
       \<and> status_of (fst (analyze_results_endpoint env3 auto3 tid3 w2)) (sr_task_id resp)
           = status_of w2 (sr_task_id resp)"
proof -
  note t = execute_test_accepts[OF assms(1)]
  from t have pend: "status_of w1 (sr_task_id resp) = Some Pending" by simp
  from execute_task_statuses[OF pend assms(2)] obtain final where
    f: "status_of w2 (sr_task_id resp) = Some final"
       "status_writes w2 = status_writes w1 @ (sr_task_id resp, Running)
           # (if final = Running then [] else [(sr_task_id resp, final)])"
       "final = Running \<or> final = Completed \<or> final = Failed"
       "(final = Running) = (logging_error auto2 \<noteq> None)"
    by blast
  from f(3) have "successively transition
                 (Pending # Running # (if final = Running then [] else [final]))"
    by auto
  with f t show ?thesis
    using analyze_endpoint_keeps_status[of env3 auto3 tid3 w2 "sr_task_id resp"]
    by auto
qed

theorem status_state_machine_witness:
  "status_writes
     (fst (execute_task example_env example_automation ''http://x.test'' ''open the page'' []
             ''task_20250501_120000_000001''
             (fst (execute_test example_env example_automation ''http://x.test''
                     ''open the page'' [] example_world))))
   = [(''task_20250501_120000_000001'', Pending), (''task_20250501_120000_000001'', Running),
      (''task_20250501_120000_000001'', Completed)]
   \<and> status_writes
     (fst (execute_task example_env (example_automation\<lparr> run_result := Inl ''boom'' \<rparr>)
             ''http://x.test'' ''open the page'' []
             ''task_20250501_120000_000001''
             (fst (execute_test example_env example_automation ''http://x.test''
                     ''open the page'' [] example_world))))
   = [(''task_20250501_120000_000001'', Pending), (''task_20250501_120000_000001'', Running),
      (''task_20250501_120000_000001'', Failed)]"
  using status_state_machine
    [of example_env example_automation "''http://x.test''" "''open the page''" "[]"
        example_world
        "fst (execute_test example_env example_automation ''http://x.test''
                ''open the page'' [] example_world)"
        "projr (snd (execute_test example_env example_automation ''http://x.test''
                ''open the page'' [] example_world))"
        example_env example_automation
        "fst (execute_task example_env example_automation ''http://x.test'' ''open the page'' []
             ''task_20250501_120000_000001''
             (fst (execute_test example_env example_automation ''http://x.test''
                     ''open the page'' [] example_world)))"
        "snd (execute_task example_env example_automation ''http://x.test'' ''open the page'' []
             ''task_20250501_120000_000001''
             (fst (execute_test example_env example_automation ''http://x.test''
                     ''open the page'' [] example_world)))"
        example_env example_automation "''t1''"]
  by (simp add: service_eval)

text \<open>
  Claim C9. For a known task whose status is \<open>pending\<close> or \<open>running\<close>,
  \<open>get_task_results\<close> and the analysis endpoint both answer with the error 400 and no
  result, and the analysis endpoint leaves the store as it is. \<open>get_task_results\<close>
  returns a result exactly when the status is \<open>completed\<close> or \<open>failed\<close>, and then it is
  the stored result.
\<close>

theorem results_rejected_until_terminal:
  assumes "task_storage w tid = Some t"
  shows "(status t = Pending \<or> status t = Running \<longrightarrow>
            get_task_results tid w
              = Inl (HTTPException 400 (''Task is still '' @ status_text (status t)))
          \<and> analyze_results_endpoint env auto tid w
              = (w, Inl (HTTPException 400 ''Task must be completed before analysis'')))
       \<and> ((\<exists>r. get_task_results tid w = Inr r) = (status t = Completed \<or> status t = Failed))
       \<and> (status t = Completed \<or> status t = Failed \<longrightarrow>
            get_task_results tid w = Inr (t_results t))"
  using assms
  by (cases "status t") (auto simp: get_task_results_def analyze_results_endpoint_def)

theorem results_rejected_until_terminal_witness:
  "task_storage example_pending_world ''t1'' = Some example_task
   \<and> status example_task = Pending
   \<and> get_task_results ''t1'' example_pending_world
       = Inl (HTTPException 400 ''Task is still pending'')
   \<and> snd (analyze_results_endpoint example_env example_automation ''t1'' example_pending_world)
       = Inl (HTTPException 400 ''Task must be completed before analysis'')
   \<and> \<not> isl (get_task_results ''t1''
               (fst (execute_task example_env example_automation ''http://x.test''
                       ''open the page'' [] ''t1'' example_pending_world)))"
  using results_rejected_until_terminal
    [of example_pending_world "''t1''" example_task example_env example_automation]
  by (simp add: service_eval)

text \<open>
  Claim C2 at its failing input: the agent is created and \<open>browser_agent.run()\<close> raises.
  The task ends \<open>failed\<close> with the exception's message as error, in the record and in
  the returned \<open>error_result\<close>, as the claim says; but \<open>close()\<close> is not called: the
  number of calls is what it was before the run. The script behaves the same. On the
  path without an exception \<open>close()\<close> is called once.
\<close>

theorem failure_leaves_session_open:
  assumes "task_storage w tid = Some t"
      and "logging_error auto = None"
      and "gemini_key auto" and "agent_error auto = None"
      and "run_result auto = Inl e"
  shows "(\<exists>w' r. execute_task env auto url d shots tid w = (w', Inr r)
         \<and> status_of w' tid = Some Failed
         \<and> map_option t_error (task_storage w' tid) = Some (Some e)
         \<and> error r = Some e \<and> \<not> success r
         \<and> close_calls w' = close_calls w)
       \<and> error (fst (execute_task_script env auto url d shots)) = Some e
       \<and> snd (execute_task_script env auto url d shots) = 0"
proof -
  let ?details = "\<lparr> target_url = Some url, task_description = Some d,
                    screenshot_instructions = Some shots \<rparr>"
  let ?w1 = "set_progress tid ''Setting up logging...'' (set_status tid Running w)"
  let ?w2 = "set_progress tid ''Executing automation task...''
               (set_progress tid ''Initializing browser agent...'' ?w1)"
  have run: "run_automation env auto ?details tid ?w1 = (?w2, Inl (e, True))"
    using assms(3-5) by (simp add: run_automation_def create_browser_agent_def Let_def)
  have "\<exists>w' r. execute_task env auto url d shots tid w = (w', Inr r)
         \<and> status_of w' tid = Some Failed
         \<and> map_option t_error (task_storage w' tid) = Some (Some e)
         \<and> error r = Some e \<and> \<not> success r
         \<and> close_calls w' = close_calls w"
    using assms(1,2) run
    by (simp add: execute_task_def Let_def status_of_def)
  moreover have "error (fst (execute_task_script env auto url d shots)) = Some e
       \<and> snd (execute_task_script env auto url d shots) = 0"
    using assms(4,5) by (simp add: execute_task_script_def Let_def)
  ultimately show ?thesis by blast
qed

theorem failure_leaves_session_open_witness:
  "task_storage example_pending_world ''t1'' = Some example_task
   \<and> status_of
        (fst (execute_task example_env (example_automation\<lparr> run_result := Inl ''boom'' \<rparr>)
                ''http://x.test'' ''open the page'' [] ''t1'' example_pending_world)) ''t1''
      = Some Failed
   \<and> map_option t_error
        (task_storage
           (fst (execute_task example_env (example_automation\<lparr> run_result := Inl ''boom'' \<rparr>)
                   ''http://x.test'' ''open the page'' [] ''t1'' example_pending_world)) ''t1'')
      = Some (Some ''boom'')
   \<and> close_calls
        (fst (execute_task example_env (example_automation\<lparr> run_result := Inl ''boom'' \<rparr>)
                ''http://x.test'' ''open the page'' [] ''t1'' example_pending_world))
      = 0
   \<and> close_calls
        (fst (execute_task example_env example_automation
                ''http://x.test'' ''open the page'' [] ''t1'' example_pending_world))
      = 1"
  using failure_leaves_session_open
    [of example_pending_world "''t1''" example_task
        "example_automation\<lparr> run_result := Inl ''boom'' \<rparr>" "''boom''"
        example_env "''http://x.test''" "''open the page''" "[]"]
  by (simp add: service_eval)

end
